theory Spec2Isabelle
  imports Complex_Main
begin

section \<open>Tables (db/database.js)\<close>

text \<open>
  The four tables of \<^verbatim>\<open>db/database.js\<close>, one record per row, a table being the list of
  its rows in rowid order. Integer keys are natural numbers, \<^verbatim>\<open>TEXT\<close> columns are strings,
  a nullable column is an \<open>option\<close> (\<open>None\<close> is \<^verbatim>\<open>NULL\<close>), and a
  \<^verbatim>\<open>CURRENT_TIMESTAMP\<close> is the number of seconds on the clock the handler is given.
  \<^verbatim>\<open>reviews.rating\<close> is declared \<^verbatim>\<open>INTEGER\<close>, which in SQLite is a column affinity and not
  a type: a bound number that is not integral is stored as it is. JavaScript numbers are
  modelled by the rationals they denote, so the column holds a \<open>rat\<close>.
\<close>

record user_row =
  u_id :: nat
  u_username :: string
  u_email :: string
  u_password :: string
  u_full_name :: "string option"
  u_profile_picture :: "string option"
  u_bio :: "string option"
  u_created_at :: nat

record project_row =
  p_id :: nat
  p_title :: string
  p_description :: string
  p_author_id :: nat
  p_section :: "string option"
  p_group_number :: "string option"
  p_full_name :: "string option"
  p_matricule :: "string option"
  p_created_at :: nat

record review_row =
  r_id :: nat
  r_project_id :: nat
  r_reviewer_id :: nat
  r_rating :: rat
  r_comment :: "string option"
  r_created_at :: nat

record file_row =
  f_id :: nat
  f_project_id :: nat
  f_file_path :: string
  f_uploaded_at :: nat

text \<open>
  The database: the tables, and for each \<^verbatim>\<open>AUTOINCREMENT\<close> key the largest rowid handed out
  so far (SQLite's \<^verbatim>\<open>sqlite_sequence\<close>).
\<close>

record db =
  users :: "user_row list"
  projects :: "project_row list"
  reviews :: "review_row list"
  project_files :: "file_row list"
  seq_users :: nat
  seq_projects :: nat
  seq_reviews :: nat
  seq_files :: nat

definition next_rowid :: "nat \<Rightarrow> nat list \<Rightarrow> nat" where
  "next_rowid s ids = Suc (fold max ids s)"

datatype sqlite_error =
    SQLITE_CONSTRAINT_NOTNULL
  | SQLITE_CONSTRAINT_UNIQUE
  | SQLITE_CONSTRAINT_CHECK
  | SQLITE_CONSTRAINT_FOREIGNKEY

section \<open>Responses\<close>

text \<open>
  A handler answers with a status and a JSON body; \<^verbatim>\<open>res.json\<close> without \<^verbatim>\<open>res.status\<close> is
  status 200. A handler is a function from the database (and the request) to the response
  and the database it leaves.
\<close>

record project_view =
  v_id :: nat
  v_title :: string
  v_description :: string
  v_section :: "string option"
  v_group_number :: "string option"
  v_full_name :: "string option"
  v_matricule :: "string option"
  v_created_at :: nat
  v_author_name :: string
  v_author_id :: nat
  v_file_path :: "string option"
  v_avg_rating :: rat
  v_review_count :: nat

record user_view =
  w_id :: nat
  w_username :: string
  w_email :: string
  w_full_name :: "string option"
  w_profile_picture :: "string option"
  w_bio :: "string option"
  w_created_at :: nat

datatype body =
    ErrorBody string
  | MessageBody string
  | AuthBody string string nat string string
  | MeBody nat string string nat
  | ProjectBody project_view
  | ProjectsBody "project_view list"
  | CreatedBody string "(project_row \<times> string \<times> string option) option"
  | ProfileBody string "user_view option"

type_synonym response = "nat \<times> body"

section \<open>Statements on single tables\<close>

definition user_by_id :: "db \<Rightarrow> nat \<Rightarrow> user_row option" where
  "user_by_id d i = find (\<lambda>u. u_id u = i) (users d)"

text \<open>\<^verbatim>\<open>SELECT * FROM projects WHERE id = ?\<close> with \<^verbatim>\<open>.get\<close>: the first row, if any.\<close>

definition project_by_id :: "db \<Rightarrow> nat \<Rightarrow> project_row option" where
  "project_by_id d i = find (\<lambda>p. p_id p = i) (projects d)"

text \<open>\<^verbatim>\<open>SELECT * FROM reviews WHERE project_id = ? AND reviewer_id = ?\<close> with \<^verbatim>\<open>.get\<close>.\<close>

definition review_of :: "nat \<Rightarrow> nat \<Rightarrow> review_row \<Rightarrow> bool" where
  "review_of pid uid r = (r_project_id r = pid \<and> r_reviewer_id r = uid)"

definition review_by_pair :: "db \<Rightarrow> nat \<Rightarrow> nat \<Rightarrow> review_row option" where
  "review_by_pair d pid uid = find (review_of pid uid) (reviews d)"

text \<open>
  \<^verbatim>\<open>INSERT INTO reviews (project_id, reviewer_id, rating, comment) VALUES (?, ?, ?, ?)\<close>
  under the table's constraints: \<^verbatim>\<open>CHECK(rating >= 1 AND rating <= 5)\<close>,
  \<^verbatim>\<open>UNIQUE(project_id, reviewer_id)\<close> and the two foreign keys. A violated constraint
  raises and leaves the database as it was.
\<close>

definition insert_review ::
  "nat \<Rightarrow> nat \<Rightarrow> nat \<Rightarrow> rat \<Rightarrow> string option \<Rightarrow> db \<Rightarrow> sqlite_error + db" where
  "insert_review now pid uid x c d =
     (if x < 1 \<or> 5 < x then Inl SQLITE_CONSTRAINT_CHECK
      else if review_by_pair d pid uid \<noteq> None then Inl SQLITE_CONSTRAINT_UNIQUE
      else if project_by_id d pid = None \<or> user_by_id d uid = None
        then Inl SQLITE_CONSTRAINT_FOREIGNKEY
      else let i = next_rowid (seq_reviews d) (map r_id (reviews d)) in
        Inr (d\<lparr>reviews := reviews d @
               [\<lparr>r_id = i, r_project_id = pid, r_reviewer_id = uid, r_rating = x,
                 r_comment = c, r_created_at = now\<rparr>],
             seq_reviews := i\<rparr>))"

text \<open>\<^verbatim>\<open>UPDATE reviews SET rating = ?, comment = ? WHERE id = ?\<close>, under the same
  \<^verbatim>\<open>CHECK\<close>.\<close>

definition set_review :: "nat \<Rightarrow> rat \<Rightarrow> string option \<Rightarrow> review_row \<Rightarrow> review_row" where
  "set_review i x c r = (if r_id r = i then r\<lparr>r_rating := x, r_comment := c\<rparr> else r)"

definition update_review :: "nat \<Rightarrow> rat \<Rightarrow> string option \<Rightarrow> db \<Rightarrow> sqlite_error + db" where
  "update_review i x c d =
     (if list_ex (\<lambda>r. r_id r = i) (reviews d) \<and> (x < 1 \<or> 5 < x)
      then Inl SQLITE_CONSTRAINT_CHECK
      else Inr (d\<lparr>reviews := map (set_review i x c) (reviews d)\<rparr>))"

section \<open>POST /projects/:id/reviews (routes/projects.js)\<close>

text \<open>
  The request body's \<^verbatim>\<open>rating\<close> is a JSON number or absent (\<open>None\<close>), its
  \<^verbatim>\<open>comment\<close> a JSON string or absent. \<^verbatim>\<open>comment || null\<close> turns the empty string into
  \<^verbatim>\<open>null\<close>, as it does an absent comment.
\<close>

definition or_null :: "string option \<Rightarrow> string option" where
  "or_null c = (case c of None \<Rightarrow> None | Some s \<Rightarrow> if s = [] then None else Some s)"

definition review_upsert ::
  "db \<Rightarrow> nat \<Rightarrow> nat \<Rightarrow> nat \<Rightarrow> rat option \<Rightarrow> string option \<Rightarrow> response \<times> db" where
  "review_upsert d now uid pid rating comment =
     (case rating of
        None \<Rightarrow> ((400, ErrorBody ''Rating must be between 1 and 5''), d)
      | Some x \<Rightarrow>
          if x = 0 \<or> x < 1 \<or> 5 < x
          then ((400, ErrorBody ''Rating must be between 1 and 5''), d)
          else (case project_by_id d pid of
             None \<Rightarrow> ((404, ErrorBody ''Project not found''), d)
           | Some p \<Rightarrow>
              (case review_by_pair d pid uid of
                 Some e \<Rightarrow>
                  (case update_review (r_id e) x (or_null comment) d of
                     Inl err \<Rightarrow> ((500, ErrorBody ''Failed to add review''), d)
                   | Inr d' \<Rightarrow> ((200, MessageBody ''Review updated successfully''), d'))
               | None \<Rightarrow>
                  (case insert_review now pid uid x (or_null comment) d of
                     Inl err \<Rightarrow> ((500, ErrorBody ''Failed to add review''), d)
                   | Inr d' \<Rightarrow> ((201, MessageBody ''Review added successfully''), d')))))"

text \<open>A sequence of submissions by one reviewer on one project, each with its clock.\<close>

fun submit_all :: "db \<Rightarrow> nat \<Rightarrow> nat \<Rightarrow> (nat \<times> rat \<times> string option) list \<Rightarrow> db" where
  "submit_all d uid pid [] = d"
| "submit_all d uid pid (s # ss) =
     submit_all (snd (review_upsert d (fst s) uid pid (Some (fst (snd s))) (snd (snd s)))) uid pid ss"

text \<open>A rational that is an integer.\<close>

definition is_integer :: "rat \<Rightarrow> bool" where
  "is_integer x = (x = of_int \<lfloor>x\<rfloor>)"

section \<open>PUT /projects/:id and DELETE /projects/:id (routes/projects.js)\<close>

text \<open>
  Both handlers run behind \<^verbatim>\<open>authenticateToken\<close>; \<open>uid\<close> is \<^verbatim>\<open>req.user.id\<close> and
  \<open>pid\<close> is \<^verbatim>\<open>req.params.id\<close>, read as the integer SQLite's numeric affinity makes of it.
  The body's fields are JSON strings or absent; an absent field is bound as \<^verbatim>\<open>NULL\<close>.
\<close>

record project_fields =
  b_title :: "string option"
  b_description :: "string option"
  b_section :: "string option"
  b_group_number :: "string option"
  b_full_name :: "string option"
  b_matricule :: "string option"

text \<open>
  \<^verbatim>\<open>UPDATE projects SET title = ?, description = ?, section = ?, group_number = ?,
  full_name = ?, matricule = ? WHERE id = ?\<close>; \<^verbatim>\<open>title\<close> and \<^verbatim>\<open>description\<close> are
  \<^verbatim>\<open>NOT NULL\<close>.
\<close>

definition set_project :: "nat \<Rightarrow> string \<Rightarrow> string \<Rightarrow> project_fields \<Rightarrow> project_row \<Rightarrow> project_row" where
  "set_project i t ds b p =
     (if p_id p = i
      then p\<lparr>p_title := t, p_description := ds, p_section := b_section b,
             p_group_number := b_group_number b, p_full_name := b_full_name b,
             p_matricule := b_matricule b\<rparr>
      else p)"

definition update_project :: "nat \<Rightarrow> project_fields \<Rightarrow> db \<Rightarrow> sqlite_error + db" where
  "update_project i b d =
     (case b_title b of
        None \<Rightarrow> if list_ex (\<lambda>p. p_id p = i) (projects d)
                then Inl SQLITE_CONSTRAINT_NOTNULL else Inr d
      | Some t \<Rightarrow>
         (case b_description b of
            None \<Rightarrow> if list_ex (\<lambda>p. p_id p = i) (projects d)
                    then Inl SQLITE_CONSTRAINT_NOTNULL else Inr d
          | Some ds \<Rightarrow> Inr (d\<lparr>projects := map (set_project i t ds b) (projects d)\<rparr>)))"

definition project_update :: "db \<Rightarrow> nat \<Rightarrow> nat \<Rightarrow> project_fields \<Rightarrow> response \<times> db" where
  "project_update d uid pid b =
     (case project_by_id d pid of
        None \<Rightarrow> ((404, ErrorBody ''Project not found''), d)
      | Some p \<Rightarrow>
          if p_author_id p \<noteq> uid
          then ((403, ErrorBody ''You can only edit your own projects''), d)
          else (case update_project pid b d of
                  Inl err \<Rightarrow> ((500, ErrorBody ''Failed to update project''), d)
                | Inr d' \<Rightarrow> ((200, MessageBody ''Project updated successfully''), d')))"

text \<open>
  The three \<^verbatim>\<open>DELETE\<close> statements. Nothing references a review or an attachment;
  \<^verbatim>\<open>reviews.project_id\<close> and \<^verbatim>\<open>project_files.project_id\<close> reference \<^verbatim>\<open>projects(id)\<close>, so
  deleting a project row that is still referenced violates a foreign key.
\<close>

definition delete_reviews_of :: "nat \<Rightarrow> db \<Rightarrow> db" where
  "delete_reviews_of pid d = d\<lparr>reviews := filter (\<lambda>r. r_project_id r \<noteq> pid) (reviews d)\<rparr>"

definition delete_files_of :: "nat \<Rightarrow> db \<Rightarrow> db" where
  "delete_files_of pid d =
     d\<lparr>project_files := filter (\<lambda>f. f_project_id f \<noteq> pid) (project_files d)\<rparr>"

definition delete_project_row :: "nat \<Rightarrow> db \<Rightarrow> sqlite_error + db" where
  "delete_project_row pid d =
     (if list_ex (\<lambda>p. p_id p = pid) (projects d)
         \<and> (list_ex (\<lambda>r. r_project_id r = pid) (reviews d)
            \<or> list_ex (\<lambda>f. f_project_id f = pid) (project_files d))
      then Inl SQLITE_CONSTRAINT_FOREIGNKEY
      else Inr (d\<lparr>projects := filter (\<lambda>p. p_id p \<noteq> pid) (projects d)\<rparr>))"

text \<open>
  The handler runs the statements one after the other, outside a transaction: when one
  raises, the earlier ones stay done and the answer is 500.
\<close>

definition project_delete :: "db \<Rightarrow> nat \<Rightarrow> nat \<Rightarrow> response \<times> db" where
  "project_delete d uid pid =
     (case project_by_id d pid of
        None \<Rightarrow> ((404, ErrorBody ''Project not found''), d)
      | Some p \<Rightarrow>
          if p_author_id p \<noteq> uid
          then ((403, ErrorBody ''You can only delete your own projects''), d)
          else (case delete_project_row pid (delete_files_of pid (delete_reviews_of pid d)) of
                  Inl err \<Rightarrow> ((500, ErrorBody ''Failed to delete project''),
                              delete_files_of pid (delete_reviews_of pid d))
                | Inr d' \<Rightarrow> ((200, MessageBody ''Project deleted successfully''), d')))"

text \<open>Every review and every attachment references a project row that exists.\<close>

definition no_orphans :: "db \<Rightarrow> bool" where
  "no_orphans d =
     (list_all (\<lambda>r. list_ex (\<lambda>p. p_id p = r_project_id r) (projects d)) (reviews d)
      \<and> list_all (\<lambda>f. list_ex (\<lambda>p. p_id p = f_project_id f) (projects d)) (project_files d))"

section \<open>GET /projects and GET /projects/:id (routes/projects.js)\<close>

text \<open>
  Both run the same query: \<^verbatim>\<open>projects JOIN users LEFT JOIN project_files LEFT JOIN reviews\<close>,
  grouped by \<^verbatim>\<open>projects.id\<close>. A joined row is a project row, the user row of its author, an
  attachment row of the project or \<^verbatim>\<open>NULL\<close>s, and a review row of the project or
  \<^verbatim>\<open>NULL\<close>s: the two left joins multiply.
\<close>

type_synonym joined = "project_row \<times> user_row \<times> file_row option \<times> review_row option"

definition left_join :: "'a list \<Rightarrow> 'a option list" where
  "left_join xs = (if xs = [] then [None] else map Some xs)"

definition files_of :: "db \<Rightarrow> nat \<Rightarrow> file_row list" where
  "files_of d pid = filter (\<lambda>f. f_project_id f = pid) (project_files d)"

definition reviews_of :: "db \<Rightarrow> nat \<Rightarrow> review_row list" where
  "reviews_of d pid = filter (\<lambda>r. r_project_id r = pid) (reviews d)"

definition joined_rows :: "db \<Rightarrow> project_row \<Rightarrow> joined list" where
  "joined_rows d p =
     concat (map (\<lambda>u.
       concat (map (\<lambda>f.
         map (\<lambda>r. (p, u, f, r)) (left_join (reviews_of d (p_id p))))
         (left_join (files_of d (p_id p)))))
       (filter (\<lambda>u. u_id u = p_author_id p) (users d)))"

text \<open>
  The aggregates skip \<^verbatim>\<open>NULL\<close>s: \<^verbatim>\<open>AVG\<close> of no value is \<^verbatim>\<open>NULL\<close>, which
  \<^verbatim>\<open>COALESCE(..., 0)\<close> turns into 0, and \<^verbatim>\<open>COUNT(reviews.id)\<close> counts the joined rows
  that carry a review. \<^verbatim>\<open>AVG\<close> is taken over the rationals (SQLite returns the nearest
  double).
\<close>

definition group_reviews :: "joined list \<Rightarrow> review_row list" where
  "group_reviews g = List.map_filter (\<lambda>j. snd (snd (snd j))) g"

definition sql_avg :: "rat list \<Rightarrow> rat option" where
  "sql_avg xs = (if xs = [] then None else Some (sum_list xs / of_nat (length xs)))"

definition coalesce :: "rat option \<Rightarrow> rat \<Rightarrow> rat" where
  "coalesce a b = (case a of None \<Rightarrow> b | Some x \<Rightarrow> x)"

text \<open>
  The row of one group. The columns outside the aggregates are bare columns: SQLite
  evaluates them on one row of the group, which the query does not name (no
  \<^verbatim>\<open>ORDER BY\<close>, no \<^verbatim>\<open>MAX\<close>). The choice of that row is the parameter \<open>pick\<close>.
\<close>

definition group_row :: "(joined list \<Rightarrow> joined) \<Rightarrow> joined list \<Rightarrow> project_view" where
  "group_row pick g =
     (let p = fst (pick g); u = fst (snd (pick g)); f = fst (snd (snd (pick g))) in
      \<lparr>v_id = p_id p, v_title = p_title p, v_description = p_description p,
       v_section = p_section p, v_group_number = p_group_number p,
       v_full_name = p_full_name p, v_matricule = p_matricule p,
       v_created_at = p_created_at p, v_author_name = u_username u, v_author_id = u_id u,
       v_file_path = map_option f_file_path f,
       v_avg_rating = coalesce (sql_avg (map r_rating (group_reviews g))) 0,
       v_review_count = length (group_reviews g)\<rparr>)"

text \<open>
  \<^verbatim>\<open>GROUP BY projects.id\<close>: \<^verbatim>\<open>id\<close> is the primary key, so a group is the joined rows of
  one project row; a project whose author row is missing has no joined row and no group.
\<close>

definition select_projects ::
  "(joined list \<Rightarrow> joined) \<Rightarrow> db \<Rightarrow> project_row list \<Rightarrow> project_view list" where
  "select_projects pick d ps =
     List.map_filter
       (\<lambda>p. if joined_rows d p = [] then None else Some (group_row pick (joined_rows d p))) ps"

text \<open>\<^verbatim>\<open>if (section)\<close>, \<^verbatim>\<open>if (group)\<close>: an absent or empty query parameter adds no
  condition.\<close>

definition matches_filter :: "string option \<Rightarrow> string option \<Rightarrow> project_row \<Rightarrow> bool" where
  "matches_filter sec grp p =
     ((case sec of None \<Rightarrow> True | Some s \<Rightarrow> s = [] \<or> p_section p = Some s)
      \<and> (case grp of None \<Rightarrow> True | Some g \<Rightarrow> g = [] \<or> p_group_number p = Some g))"

text \<open>
  \<^verbatim>\<open>ORDER BY projects.created_at DESC\<close>: newest first, projects of equal creation time in
  rowid order (the sort is stable, so the list is reversed before and after it).
\<close>

definition projects_list ::
  "(joined list \<Rightarrow> joined) \<Rightarrow> db \<Rightarrow> string option \<Rightarrow> string option \<Rightarrow> response" where
  "projects_list pick d sec grp =
     (200, ProjectsBody (select_projects pick d
        (rev (sort_key p_created_at
           (rev (filter (matches_filter sec grp) (projects d)))))))"

definition project_get :: "(joined list \<Rightarrow> joined) \<Rightarrow> db \<Rightarrow> nat \<Rightarrow> response" where
  "project_get pick d pid =
     (case select_projects pick d (filter (\<lambda>p. p_id p = pid) (projects d)) of
        [] \<Rightarrow> (404, ErrorBody ''Project not found'')
      | v # vs \<Rightarrow> (200, ProjectBody v))"

text \<open>The first row of the group, in the order the joins produce the rows.\<close>

definition first_row :: "joined list \<Rightarrow> joined" where
  "first_row g = hd g"

text \<open>What every choice of the bare row satisfies: the row is a row of the group.\<close>

definition picks_row :: "(joined list \<Rightarrow> joined) \<Rightarrow> bool" where
  "picks_row pick = (\<forall>g. g \<noteq> [] \<longrightarrow> pick g \<in> set g)"

section \<open>POST /auth/register, POST /auth/login, GET /auth/me (routes/auth.js)\<close>

text \<open>
  \<^verbatim>\<open>bcrypt\<close> and \<^verbatim>\<open>jsonwebtoken\<close> are libraries outside the repository; the handlers take
  them as parameters. \<open>jwt_sign\<close> is \<^verbatim>\<open>jwt.sign({id, username, email}, JWT_SECRET,
  {expiresIn: "7d"})\<close>; \<open>jwt_verify\<close> is \<^verbatim>\<open>jwt.verify(token, JWT_SECRET)\<close> at the time of the
  request: the decoded payload, or \<open>None\<close> when it throws (a signature made with
  another key, a token past its expiry, a malformed token). \<open>bcrypt_compare\<close> is
  \<^verbatim>\<open>await bcrypt.compare(password, user.password)\<close>: its answer, or \<open>None\<close> when it
  throws. The fields of a request body are JSON strings or absent.
\<close>

record lib =
  bcrypt_hash :: "string \<Rightarrow> string"
  bcrypt_compare :: "string \<Rightarrow> string \<Rightarrow> bool option"
  jwt_sign :: "nat \<Rightarrow> string \<Rightarrow> string \<Rightarrow> string"
  jwt_verify :: "string \<Rightarrow> (nat \<times> string \<times> string) option"

text \<open>
  \<^verbatim>\<open>/^[^\s@]+@[^\s@]+\.[^\s@]+$/\<close>: the string is \<open>a @ b . c\<close> with \<open>a\<close>, \<open>b\<close>, \<open>c\<close>
  non-empty and free of white space and of \<open>@\<close>; \<open>i\<close> is the position of the \<open>@\<close> and
  \<open>j\<close> that of the dot. Strings are taken to be ASCII, where \<^verbatim>\<open>\s\<close> is one of six
  characters.
\<close>

definition js_space :: "char \<Rightarrow> bool" where
  "js_space c = (c = CHR '' '' \<or> c = CHR 0x09 \<or> c = CHR 0x0A \<or> c = CHR 0x0B
                 \<or> c = CHR 0x0C \<or> c = CHR 0x0D)"

definition not_space_at :: "char \<Rightarrow> bool" where
  "not_space_at c = (\<not> js_space c \<and> c \<noteq> CHR ''@'')"

definition emailRegex_test :: "string \<Rightarrow> bool" where
  "emailRegex_test s =
     list_ex (\<lambda>i. list_ex (\<lambda>j.
        0 < i \<and> i + 1 < j \<and> j + 1 < length s
        \<and> s ! i = CHR ''@'' \<and> s ! j = CHR ''.''
        \<and> list_all not_space_at (take i s)
        \<and> list_all not_space_at (take (j - (i + 1)) (drop (i + 1) s))
        \<and> list_all not_space_at (drop (j + 1) s))
       [0..<length s]) [0..<length s]"

text \<open>
  \<^verbatim>\<open>SELECT ... FROM users WHERE email = ? OR username = ?\<close> with \<^verbatim>\<open>.get\<close>. Both columns
  are \<^verbatim>\<open>UNIQUE\<close>, and SQLite answers the disjunction from the two indexes in the order of
  the terms: the row whose email matches comes first, and the row whose username matches
  is returned only when no email matches.
\<close>

definition user_by_email_or_username :: "db \<Rightarrow> string \<Rightarrow> string \<Rightarrow> user_row option" where
  "user_by_email_or_username d e n =
     (case find (\<lambda>u. u_email u = e) (users d) of
        Some u \<Rightarrow> Some u
      | None \<Rightarrow> find (\<lambda>u. u_username u = n) (users d))"

text \<open>\<^verbatim>\<open>INSERT INTO users (username, email, password) VALUES (?, ?, ?)\<close>; \<^verbatim>\<open>username\<close> and
  \<^verbatim>\<open>email\<close> are \<^verbatim>\<open>UNIQUE\<close>.\<close>

definition insert_user :: "nat \<Rightarrow> string \<Rightarrow> string \<Rightarrow> string \<Rightarrow> db \<Rightarrow> sqlite_error + db" where
  "insert_user now n e h d =
     (if list_ex (\<lambda>u. u_username u = n \<or> u_email u = e) (users d)
      then Inl SQLITE_CONSTRAINT_UNIQUE
      else let i = next_rowid (seq_users d) (map u_id (users d)) in
        Inr (d\<lparr>users := users d @
               [\<lparr>u_id = i, u_username = n, u_email = e, u_password = h, u_full_name = None,
                 u_profile_picture = None, u_bio = None, u_created_at = now\<rparr>],
             seq_users := i\<rparr>))"

definition register ::
  "lib \<Rightarrow> db \<Rightarrow> nat \<Rightarrow> string option \<Rightarrow> string option \<Rightarrow> string option \<Rightarrow> response \<times> db" where
  "register l d now username email password =
     (case username of
        None \<Rightarrow> ((400, ErrorBody ''Username, email, and password are required''), d)
      | Some n \<Rightarrow>
     (case email of
        None \<Rightarrow> ((400, ErrorBody ''Username, email, and password are required''), d)
      | Some e \<Rightarrow>
     (case password of
        None \<Rightarrow> ((400, ErrorBody ''Username, email, and password are required''), d)
      | Some pw \<Rightarrow>
          if n = [] \<or> e = [] \<or> pw = []
          then ((400, ErrorBody ''Username, email, and password are required''), d)
          else if length n < 3
          then ((400, ErrorBody ''Username must be at least 3 characters''), d)
          else if length pw < 6
          then ((400, ErrorBody ''Password must be at least 6 characters''), d)
          else if \<not> emailRegex_test e
          then ((400, ErrorBody ''Invalid email format''), d)
          else if user_by_email_or_username d e n \<noteq> None
          then ((409, ErrorBody ''Username or email already exists''), d)
          else (case insert_user now n e (bcrypt_hash l pw) d of
                  Inl err \<Rightarrow> ((500, ErrorBody ''Registration failed. Please try again.''), d)
                | Inr d' \<Rightarrow>
                    ((201, AuthBody ''Registration successful''
                        (jwt_sign l (seq_users d') n e) (seq_users d') n e), d')))))"

text \<open>
  Login. The body's \<^verbatim>\<open>email\<close> field is matched against both columns:
  \<^verbatim>\<open>WHERE email = ? OR username = ?\<close> with \<^verbatim>\<open>.get(email, email)\<close>. A throw of
  \<^verbatim>\<open>bcrypt.compare\<close> lands in the handler's \<^verbatim>\<open>catch\<close>.
\<close>

definition login :: "lib \<Rightarrow> db \<Rightarrow> string option \<Rightarrow> string option \<Rightarrow> response" where
  "login l d email password =
     (case email of
        None \<Rightarrow> (400, ErrorBody ''Email and password are required'')
      | Some e \<Rightarrow>
     (case password of
        None \<Rightarrow> (400, ErrorBody ''Email and password are required'')
      | Some pw \<Rightarrow>
          if e = [] \<or> pw = []
          then (400, ErrorBody ''Email and password are required'')
          else (case user_by_email_or_username d e e of
                  None \<Rightarrow> (401, ErrorBody ''Invalid email/username or password'')
                | Some u \<Rightarrow>
                   (case bcrypt_compare l pw (u_password u) of
                      None \<Rightarrow> (500, ErrorBody ''Login failed. Please try again.'')
                    | Some ok \<Rightarrow>
                        if \<not> ok
                        then (401, ErrorBody ''Invalid email/username or password'')
                        else (200, AuthBody ''Login successful''
                                (jwt_sign l (u_id u) (u_username u) (u_email u))
                                (u_id u) (u_username u) (u_email u))))))"

text \<open>
  \<^verbatim>\<open>authHeader && authHeader.split(' ')[1]\<close>, with \<open>None\<close> for every falsy outcome (no
  header, an empty header, no second piece, an empty second piece).
\<close>

fun js_split :: "char \<Rightarrow> string \<Rightarrow> string list" where
  "js_split c [] = [[]]"
| "js_split c (x # xs) =
     (if x = c then [] # js_split c xs
      else (case js_split c xs of [] \<Rightarrow> [[x]] | w # ws \<Rightarrow> (x # w) # ws))"

definition bearer_token :: "string option \<Rightarrow> string option" where
  "bearer_token h =
     (case h of
        None \<Rightarrow> None
      | Some s \<Rightarrow>
         (case js_split (CHR '' '') s of
            a # t # ts \<Rightarrow> if t = [] then None else Some t
          | _ \<Rightarrow> None))"

definition auth_me :: "lib \<Rightarrow> db \<Rightarrow> string option \<Rightarrow> response" where
  "auth_me l d h =
     (case bearer_token h of
        None \<Rightarrow> (401, ErrorBody ''No token provided'')
      | Some t \<Rightarrow>
         (case jwt_verify l t of
            None \<Rightarrow> (403, ErrorBody ''Invalid token'')
          | Some c \<Rightarrow>
             (case user_by_id d (fst c) of
                None \<Rightarrow> (404, ErrorBody ''User not found'')
              | Some u \<Rightarrow>
                  (200, MeBody (u_id u) (u_username u) (u_email u) (u_created_at u)))))"

section \<open>POST /projects (routes/projects.js)\<close>

text \<open>
  \<^verbatim>\<open>INSERT INTO projects (title, description, author_id, section, group_number, full_name,
  matricule)\<close> with \<^verbatim>\<open>section || null\<close> and the like; \<^verbatim>\<open>author_id\<close> references
  \<^verbatim>\<open>users(id)\<close>.
\<close>

definition insert_project ::
  "nat \<Rightarrow> nat \<Rightarrow> string \<Rightarrow> string \<Rightarrow> project_fields \<Rightarrow> db \<Rightarrow> sqlite_error + db" where
  "insert_project now uid t ds b d =
     (if user_by_id d uid = None then Inl SQLITE_CONSTRAINT_FOREIGNKEY
      else let i = next_rowid (seq_projects d) (map p_id (projects d)) in
        Inr (d\<lparr>projects := projects d @
               [\<lparr>p_id = i, p_title = t, p_description = ds, p_author_id = uid,
                 p_section = or_null (b_section b),
                 p_group_number = or_null (b_group_number b),
                 p_full_name = or_null (b_full_name b),
                 p_matricule = or_null (b_matricule b), p_created_at = now\<rparr>],
             seq_projects := i\<rparr>))"

text \<open>\<^verbatim>\<open>INSERT INTO project_files (project_id, file_path) VALUES (?, ?)\<close>: the only statement
  of the repository that adds an attachment row.\<close>

definition insert_file :: "nat \<Rightarrow> nat \<Rightarrow> string \<Rightarrow> db \<Rightarrow> sqlite_error + db" where
  "insert_file now pid path d =
     (if project_by_id d pid = None then Inl SQLITE_CONSTRAINT_FOREIGNKEY
      else let i = next_rowid (seq_files d) (map f_id (project_files d)) in
        Inr (d\<lparr>project_files := project_files d @
               [\<lparr>f_id = i, f_project_id = pid, f_file_path = path, f_uploaded_at = now\<rparr>],
             seq_files := i\<rparr>))"

text \<open>
  \<^verbatim>\<open>SELECT projects.*, users.username AS author_name, project_files.file_path FROM projects
  JOIN users ... LEFT JOIN project_files ... WHERE projects.id = ?\<close> with \<^verbatim>\<open>.get\<close>.
\<close>

definition created_row :: "db \<Rightarrow> nat \<Rightarrow> (project_row \<times> string \<times> string option) option" where
  "created_row d i =
     (case concat (map (\<lambda>p.
              concat (map (\<lambda>u.
                map (\<lambda>f. (p, u_username u, map_option f_file_path f))
                  (left_join (files_of d (p_id p))))
                (filter (\<lambda>u. u_id u = p_author_id p) (users d))))
            (filter (\<lambda>p. p_id p = i) (projects d))) of
        [] \<Rightarrow> None
      | x # xs \<Rightarrow> Some x)"

text \<open>
  The handler, behind \<^verbatim>\<open>authenticateToken\<close> and \<^verbatim>\<open>upload.single("file")\<close>: \<open>file\<close> is
  \<^verbatim>\<open>req.file.filename\<close> when a file came with the request. The project row is inserted
  first; the attachment row, at most one, second and for the id just assigned; a failure
  of the second leaves the first done. Each of the two inserts reads the clock for its
  \<^verbatim>\<open>CURRENT_TIMESTAMP\<close> default: \<open>now\<close> and \<open>later\<close>.
\<close>

definition project_create ::
  "db \<Rightarrow> nat \<Rightarrow> nat \<Rightarrow> nat \<Rightarrow> project_fields \<Rightarrow> string option \<Rightarrow> response \<times> db" where
  "project_create d now later uid b file =
     (case b_title b of
        None \<Rightarrow> ((400, ErrorBody ''Title and description are required''), d)
      | Some t \<Rightarrow>
     (case b_description b of
        None \<Rightarrow> ((400, ErrorBody ''Title and description are required''), d)
      | Some ds \<Rightarrow>
          if t = [] \<or> ds = []
          then ((400, ErrorBody ''Title and description are required''), d)
          else if length t < 3
          then ((400, ErrorBody ''Title must be at least 3 characters''), d)
          else if length ds < 10
          then ((400, ErrorBody ''Description must be at least 10 characters''), d)
          else (case insert_project now uid t ds b d of
                  Inl err \<Rightarrow> ((500, ErrorBody ''Failed to create project''), d)
                | Inr d1 \<Rightarrow>
                   (case file of
                      None \<Rightarrow>
                        ((201, CreatedBody ''Project created successfully''
                            (created_row d1 (seq_projects d1))), d1)
                    | Some name \<Rightarrow>
                       (case insert_file later (seq_projects d1) (''/uploads/'' @ name) d1 of
                          Inl err \<Rightarrow> ((500, ErrorBody ''Failed to create project''), d1)
                        | Inr d2 \<Rightarrow>
                            ((201, CreatedBody ''Project created successfully''
                                (created_row d2 (seq_projects d1))), d2))))))"

section \<open>PUT /users/me (routes/users.js)\<close>

text \<open>\<^verbatim>\<open>a || b\<close> on optional strings.\<close>

definition js_or :: "string option \<Rightarrow> string option \<Rightarrow> string option" where
  "js_or a b = (case a of None \<Rightarrow> b | Some s \<Rightarrow> if s = [] then b else Some s)"

text \<open>\<^verbatim>\<open>UPDATE users SET username = ?, full_name = ?, bio = ?, profile_picture = ? WHERE
  id = ?\<close>; \<^verbatim>\<open>username\<close> is \<^verbatim>\<open>UNIQUE\<close>.\<close>

definition set_user ::
  "nat \<Rightarrow> string \<Rightarrow> string option \<Rightarrow> string option \<Rightarrow> string option \<Rightarrow> user_row \<Rightarrow> user_row" where
  "set_user i n fn bi pic u =
     (if u_id u = i
      then u\<lparr>u_username := n, u_full_name := fn, u_bio := bi, u_profile_picture := pic\<rparr>
      else u)"

definition update_user ::
  "nat \<Rightarrow> string \<Rightarrow> string option \<Rightarrow> string option \<Rightarrow> string option \<Rightarrow> db \<Rightarrow> sqlite_error + db" where
  "update_user i n fn bi pic d =
     (if list_ex (\<lambda>u. u_id u = i) (users d)
         \<and> list_ex (\<lambda>u. u_id u \<noteq> i \<and> u_username u = n) (users d)
      then Inl SQLITE_CONSTRAINT_UNIQUE
      else Inr (d\<lparr>users := map (set_user i n fn bi pic) (users d)\<rparr>))"

definition user_view_of :: "user_row \<Rightarrow> user_view" where
  "user_view_of u =
     \<lparr>w_id = u_id u, w_username = u_username u, w_email = u_email u,
      w_full_name = u_full_name u, w_profile_picture = u_profile_picture u,
      w_bio = u_bio u, w_created_at = u_created_at u\<rparr>"

definition users_me_update ::
  "db \<Rightarrow> nat \<Rightarrow> string option \<Rightarrow> string option \<Rightarrow> string option \<Rightarrow> string option
   \<Rightarrow> response \<times> db" where
  "users_me_update d uid username full_name bio file =
     (case user_by_id d uid of
        None \<Rightarrow> ((404, ErrorBody ''User not found''), d)
      | Some cu \<Rightarrow>
          if (case username of
                None \<Rightarrow> False
              | Some n \<Rightarrow> n \<noteq> [] \<and> n \<noteq> u_username cu
                  \<and> list_ex (\<lambda>u. u_username u = n \<and> u_id u \<noteq> uid) (users d))
          then ((400, ErrorBody ''Username already taken''), d)
          else (case update_user uid
                       (case username of
                          None \<Rightarrow> u_username cu
                        | Some n \<Rightarrow> if n = [] then u_username cu else n)
                       (js_or full_name (u_full_name cu))
                       (js_or bio (u_bio cu))
                       (case file of
                          None \<Rightarrow> u_profile_picture cu
                        | Some name \<Rightarrow> Some (''/uploads/avatars/'' @ name))
                       d of
                  Inl err \<Rightarrow> ((500, ErrorBody ''Failed to update profile''), d)
                | Inr d' \<Rightarrow>
                    ((200, ProfileBody ''Profile updated successfully''
                        (map_option user_view_of (user_by_id d' uid))), d')))"

section \<open>The states the service reaches\<close>

text \<open>
  The requests that change the database, each with its clock where the handler reads
  one and with the authenticated user id where the route is behind
  \<^verbatim>\<open>authenticateToken\<close>. The service starts on the empty tables that
  \<^verbatim>\<open>CREATE TABLE IF NOT EXISTS\<close> leaves, and a state it reaches is the outcome of a
  list of requests.
\<close>

datatype request =
    Register nat "string option" "string option" "string option"
  | CreateProject nat nat nat project_fields "string option"
  | UpdateProject nat nat project_fields
  | DeleteProject nat nat
  | SubmitReview nat nat nat "rat option" "string option"
  | UpdateProfile nat "string option" "string option" "string option" "string option"

fun apply_request :: "lib \<Rightarrow> db \<Rightarrow> request \<Rightarrow> db" where
  "apply_request l d (Register now n e pw) = snd (register l d now n e pw)"
| "apply_request l d (CreateProject now later uid b file) =
     snd (project_create d now later uid b file)"
| "apply_request l d (UpdateProject uid pid b) = snd (project_update d uid pid b)"
| "apply_request l d (DeleteProject uid pid) = snd (project_delete d uid pid)"
| "apply_request l d (SubmitReview now uid pid rating comment) =
     snd (review_upsert d now uid pid rating comment)"
| "apply_request l d (UpdateProfile uid n fn bi file) =
     snd (users_me_update d uid n fn bi file)"

definition empty_db :: db where
  "empty_db = \<lparr>users = [], projects = [], reviews = [], project_files = [],
               seq_users = 0, seq_projects = 0, seq_reviews = 0, seq_files = 0\<rparr>"

definition run :: "lib \<Rightarrow> db \<Rightarrow> request list \<Rightarrow> db" where
  "run l d rs = foldl (apply_request l) d rs"

text \<open>
  What every reached state satisfies: user ids and project ids are keys, the author of
  every project exists, every attachment belongs to a project that exists, and no two
  attachment rows belong to the same project.
\<close>

definition db_inv :: "db \<Rightarrow> bool" where
  "db_inv d =
     (distinct (map u_id (users d)) \<and> distinct (map p_id (projects d))
      \<and> list_all (\<lambda>p. list_ex (\<lambda>u. u_id u = p_author_id p) (users d)) (projects d)
      \<and> list_all (\<lambda>f. list_ex (\<lambda>p. p_id p = f_project_id f) (projects d)) (project_files d)
      \<and> distinct (map f_project_id (project_files d)))"

section \<open>Sample data\<close>

text \<open>A small database: two users, one project of user 1, no review, no attachment.\<close>

definition alice :: user_row where
  "alice = \<lparr>u_id = 1, u_username = ''alice'', u_email = ''alice@usthb.dz'',
            u_password = ''hash-wonderland'', u_full_name = None, u_profile_picture = None,
            u_bio = None, u_created_at = 10\<rparr>"

definition bob :: user_row where
  "bob = \<lparr>u_id = 2, u_username = ''bob'', u_email = ''bob@usthb.dz'',
          u_password = ''hash-builder1'', u_full_name = None, u_profile_picture = None,
          u_bio = None, u_created_at = 20\<rparr>"

definition thermostat :: project_row where
  "thermostat = \<lparr>p_id = 1, p_title = ''Thermostat PID'',
     p_description = ''A PID controller for lab thermostat'', p_author_id = 1,
     p_section = Some ''A'', p_group_number = Some ''2'', p_full_name = None,
     p_matricule = None, p_created_at = 30\<rparr>"

definition db0 :: db where
  "db0 = \<lparr>users = [alice, bob], projects = [thermostat], reviews = [], project_files = [],
          seq_users = 2, seq_projects = 1, seq_reviews = 0, seq_files = 0\<rparr>"

text \<open>The same with a review of the project by user 2.\<close>

definition db1 :: db where
  "db1 = db0\<lparr>reviews := [\<lparr>r_id = 1, r_project_id = 1, r_reviewer_id = 2, r_rating = 4,
                        r_comment = Some ''good'', r_created_at = 100\<rparr>], seq_reviews := 1\<rparr>"

text \<open>A full set of fields for an update of the project.\<close>

definition new_fields :: project_fields where
  "new_fields = \<lparr>b_title = Some ''Thermostat PID v2'',
     b_description = Some ''A better PID controller'', b_section = None,
     b_group_number = Some ''3'', b_full_name = None, b_matricule = None\<rparr>"

text \<open>
  Two attachment rows of project 1, the second uploaded later, and the database with
  both of them and no review. This database is put together by hand: the service adds
  at most one attachment row per project. \<open>thermostat_view\<close> is the project as the
  queries show it, up to the attachment reference and the two aggregates.
\<close>

definition old_file :: file_row where
  "old_file = \<lparr>f_id = 1, f_project_id = 1, f_file_path = ''/uploads/project-1.pdf'',
                f_uploaded_at = 40\<rparr>"

definition new_file :: file_row where
  "new_file = \<lparr>f_id = 2, f_project_id = 1, f_file_path = ''/uploads/project-2.pdf'',
                f_uploaded_at = 50\<rparr>"

definition db3 :: db where
  "db3 = db0\<lparr>project_files := [old_file, new_file], seq_files := 2\<rparr>"

definition thermostat_view :: "string option \<Rightarrow> rat \<Rightarrow> nat \<Rightarrow> project_view" where
  "thermostat_view path avg n =
     \<lparr>v_id = 1, v_title = ''Thermostat PID'',
      v_description = ''A PID controller for lab thermostat'', v_section = Some ''A'',
      v_group_number = Some ''2'', v_full_name = None, v_matricule = None,
      v_created_at = 30, v_author_name = ''alice'', v_author_id = 1,
      v_file_path = path, v_avg_rating = avg, v_review_count = n\<rparr>"

text \<open>
  A stand-in for the two libraries: the hash of a password is the password behind a
  prefix, and one token is valid, that of user 1.
\<close>

definition sample_lib :: lib where
  "sample_lib =
     \<lparr>bcrypt_hash = (\<lambda>pw. ''hash-'' @ pw),
      bcrypt_compare = (\<lambda>pw h. Some (h = ''hash-'' @ pw)),
      jwt_sign = (\<lambda>i n e. ''token-'' @ n),
      jwt_verify = (\<lambda>t. if t = ''token-alice'' then Some (1, ''alice'', ''alice@usthb.dz'')
                          else None)\<rparr>"

text \<open>
  A run of the service from the empty tables: two registrations, the creation of the
  project with one uploaded file, and a review of it by each of the two users, with the
  ratings 3 and 5. \<open>db_reached\<close> is the state after the run.
\<close>

definition thermostat_fields :: project_fields where
  "thermostat_fields = \<lparr>b_title = Some ''Thermostat PID'',
     b_description = Some ''A PID controller for lab thermostat'', b_section = Some ''A'',
     b_group_number = Some ''2'', b_full_name = None, b_matricule = None\<rparr>"

definition sample_requests :: "request list" where
  "sample_requests =
     [Register 10 (Some ''alice'') (Some ''alice@usthb.dz'') (Some ''wonderland''),
      Register 20 (Some ''bob'') (Some ''bob@usthb.dz'') (Some ''builder1''),
      CreateProject 30 40 1 thermostat_fields (Some ''project-1.pdf''),
      SubmitReview 100 2 1 (Some 3) None,
      SubmitReview 110 1 1 (Some 5) None]"

definition db_reached :: db where
  "db_reached = db0\<lparr>reviews :=
            [\<lparr>r_id = 1, r_project_id = 1, r_reviewer_id = 2, r_rating = 3,
              r_comment = None, r_created_at = 100\<rparr>,
             \<lparr>r_id = 2, r_project_id = 1, r_reviewer_id = 1, r_rating = 5,
              r_comment = None, r_created_at = 110\<rparr>],
          project_files := [old_file], seq_reviews := 2, seq_files := 1\<rparr>"

text \<open>
  Two users that registration admits side by side: the username of the first is the
  email of the second.
\<close>

definition clash_requests :: "request list" where
  "clash_requests =
     [Register 10 (Some ''bob@usthb.dz'') (Some ''u1@usthb.dz'') (Some ''password1''),
      Register 20 (Some ''bob'') (Some ''bob@usthb.dz'') (Some ''password2'')]"

definition db_clash :: db where
  "db_clash =
     \<lparr>users =
        [\<lparr>u_id = 1, u_username = ''bob@usthb.dz'', u_email = ''u1@usthb.dz'',
          u_password = ''hash-password1'', u_full_name = None, u_profile_picture = None,
          u_bio = None, u_created_at = 10\<rparr>,
         \<lparr>u_id = 2, u_username = ''bob'', u_email = ''bob@usthb.dz'',
          u_password = ''hash-password2'', u_full_name = None, u_profile_picture = None,
          u_bio = None, u_created_at = 20\<rparr>],
      projects = [], reviews = [], project_files = [],
      seq_users = 2, seq_projects = 0, seq_reviews = 0, seq_files = 0\<rparr>"

section \<open>The review upsert: one row per project and reviewer\<close>

lemma find_filter_hd: "find P xs = (case filter P xs of [] \<Rightarrow> None | y # ys \<Rightarrow> Some y)"
  by (induction xs) auto

lemma review_of_set_review: "review_of pid uid (set_review i x c r) = review_of pid uid r"
  by (simp add: review_of_def set_review_def)

lemma filter_review_of_map:
  "filter (review_of pid uid) (map (set_review i x c) rs) =
   map (set_review i x c) (filter (review_of pid uid) rs)"
  by (induction rs) (auto simp: review_of_set_review)

lemma upsert_update_path:
  assumes "review_by_pair d pid uid = Some e" and "1 \<le> x" and "x \<le> 5"
    and "project_by_id d pid \<noteq> None"
  shows "review_upsert d now uid pid (Some x) c =
     ((200, MessageBody ''Review updated successfully''),
      d\<lparr>reviews := map (set_review (r_id e) x (or_null c)) (reviews d)\<rparr>)"
  using assms by (auto simp: review_upsert_def update_review_def)

lemma upsert_insert_path:
  assumes "review_by_pair d pid uid = None" and "1 \<le> x" and "x \<le> 5"
    and "project_by_id d pid \<noteq> None" and "user_by_id d uid \<noteq> None"
  shows "review_upsert d now uid pid (Some x) c =
     ((201, MessageBody ''Review added successfully''),
      d\<lparr>reviews := reviews d @
          [\<lparr>r_id = next_rowid (seq_reviews d) (map r_id (reviews d)), r_project_id = pid,
            r_reviewer_id = uid, r_rating = x, r_comment = or_null c, r_created_at = now\<rparr>],
        seq_reviews := next_rowid (seq_reviews d) (map r_id (reviews d))\<rparr>)"
  using assms by (auto simp: review_upsert_def insert_review_def Let_def)

text \<open>One accepted submission: afterwards the pair has exactly one row, with the
  submitted rating and the comment as \<^verbatim>\<open>comment || null\<close> leaves it.\<close>

lemma upsert_step:
  assumes "length (filter (review_of pid uid) (reviews d)) \<le> 1"
    and "project_by_id d pid \<noteq> None" and "user_by_id d uid \<noteq> None"
    and "1 \<le> x" and "x \<le> 5"
  shows "\<exists>row. filter (review_of pid uid)
             (reviews (snd (review_upsert d t uid pid (Some x) c))) = [row]
           \<and> r_rating row = x \<and> r_comment row = or_null c
           \<and> (\<forall>e. filter (review_of pid uid) (reviews d) = [e] \<longrightarrow>
                 row = e\<lparr>r_rating := x, r_comment := or_null c\<rparr>)"
    and "projects (snd (review_upsert d t uid pid (Some x) c)) = projects d"
    and "users (snd (review_upsert d t uid pid (Some x) c)) = users d"
    and "length (reviews (snd (review_upsert d t uid pid (Some x) c))) =
         length (reviews d) + (1 - length (filter (review_of pid uid) (reviews d)))"
proof -
  let ?P = "review_of pid uid"
  let ?d' = "snd (review_upsert d t uid pid (Some x) c)"
  show "\<exists>row. filter ?P (reviews ?d') = [row]
           \<and> r_rating row = x \<and> r_comment row = or_null c
           \<and> (\<forall>e. filter ?P (reviews d) = [e] \<longrightarrow>
                 row = e\<lparr>r_rating := x, r_comment := or_null c\<rparr>)"
  proof (cases "filter ?P (reviews d)")
    case Nil
    then have "review_by_pair d pid uid = None"
      by (simp add: review_by_pair_def find_filter_hd)
    from upsert_insert_path[OF this assms(4,5,2,3)] Nil show ?thesis
      by (simp add: review_of_def)
  next
    case (Cons e es)
    with assms(1) have es: "es = []" by simp
    from Cons have "review_by_pair d pid uid = Some e"
      by (simp add: review_by_pair_def find_filter_hd)
    from upsert_update_path[OF this assms(4,5,2)] Cons es show ?thesis
      by (simp add: filter_review_of_map set_review_def)
  qed
  show "projects ?d' = projects d"
    by (cases "review_by_pair d pid uid")
      (use assms in \<open>simp_all add: upsert_insert_path upsert_update_path\<close>)
  show "users ?d' = users d"
    by (cases "review_by_pair d pid uid")
      (use assms in \<open>simp_all add: upsert_insert_path upsert_update_path\<close>)
  show "length (reviews ?d') = length (reviews d) + (1 - length (filter ?P (reviews d)))"
  proof (cases "filter ?P (reviews d)")
    case Nil
    then have "review_by_pair d pid uid = None"
      by (simp add: review_by_pair_def find_filter_hd)
    from upsert_insert_path[OF this assms(4,5,2,3)] Nil show ?thesis by simp
  next
    case (Cons e es)
    from Cons have "review_by_pair d pid uid = Some e"
      by (simp add: review_by_pair_def find_filter_hd)
    from upsert_update_path[OF this assms(4,5,2)] Cons show ?thesis by simp
  qed
qed

text \<open>
  Claim C1, as amended. Take a database in which the pair \<open>(pid, uid)\<close> has at most one
  review row (the table's \<^verbatim>\<open>UNIQUE\<close> constraint), the project and the reviewer exist, and
  any non-empty sequence of submissions by \<open>uid\<close> on \<open>pid\<close> whose ratings lie between 1
  and 5 (so that each is accepted). After the sequence the pair has exactly one row; its
  rating is the last submitted rating; its comment is the last submitted comment, except
  that an empty comment is stored as \<^verbatim>\<open>NULL\<close> like an absent one. If the pair had a row
  before, the row left is that very row with only its rating and comment replaced, and
  the table has grown by no row; otherwise it has grown by exactly one.
\<close>

theorem review_upsert_sequence_last_wins:
  assumes "length (filter (review_of pid uid) (reviews d)) \<le> 1"
    and "project_by_id d pid \<noteq> None" and "user_by_id d uid \<noteq> None"
    and "subs \<noteq> []"
    and "list_all (\<lambda>s. 1 \<le> fst (snd s) \<and> fst (snd s) \<le> 5) subs"
  shows "(\<exists>row. filter (review_of pid uid) (reviews (submit_all d uid pid subs)) = [row]
           \<and> r_rating row = fst (snd (last subs))
           \<and> r_comment row = or_null (snd (snd (last subs)))
           \<and> (\<forall>e. filter (review_of pid uid) (reviews d) = [e] \<longrightarrow>
                 row = e\<lparr>r_rating := fst (snd (last subs)),
                          r_comment := or_null (snd (snd (last subs)))\<rparr>))
       \<and> length (reviews (submit_all d uid pid subs)) =
           length (reviews d) + (1 - length (filter (review_of pid uid) (reviews d)))"
  using assms
proof (induction subs arbitrary: d)
  case Nil
  then show ?case by simp
next
  case (Cons s ss)
  let ?P = "review_of pid uid"
  let ?d1 = "snd (review_upsert d (fst s) uid pid (Some (fst (snd s))) (snd (snd s)))"
  from Cons.prems(5) have ok: "1 \<le> fst (snd s)" "fst (snd s) \<le> 5"
    and oks: "list_all (\<lambda>s. 1 \<le> fst (snd s) \<and> fst (snd s) \<le> 5) ss" by simp_all
  note st = upsert_step[OF Cons.prems(1,2,3) ok, of "fst s" "snd (snd s)"]
  from st(1) obtain row where row: "filter ?P (reviews ?d1) = [row]"
    "r_rating row = fst (snd s)" "r_comment row = or_null (snd (snd s))"
    "\<forall>e. filter ?P (reviews d) = [e] \<longrightarrow>
       row = e\<lparr>r_rating := fst (snd s), r_comment := or_null (snd (snd s))\<rparr>"
    by blast
  show ?case
  proof (cases "ss = []")
    case True
    with row st(4) show ?thesis by simp
  next
    case False
    have p1: "length (filter ?P (reviews ?d1)) \<le> 1" using row(1) by simp
    have p2: "project_by_id ?d1 pid \<noteq> None"
      using Cons.prems(2) st(2) by (simp add: project_by_id_def)
    have p3: "user_by_id ?d1 uid \<noteq> None"
      using Cons.prems(3) st(3) by (simp add: user_by_id_def)
    from Cons.IH[OF p1 p2 p3 False oks]
    obtain r2 where r2: "filter ?P (reviews (submit_all ?d1 uid pid ss)) = [r2]"
      "r_rating r2 = fst (snd (last ss))" "r_comment r2 = or_null (snd (snd (last ss)))"
      "\<forall>e. filter ?P (reviews ?d1) = [e] \<longrightarrow>
         r2 = e\<lparr>r_rating := fst (snd (last ss)), r_comment := or_null (snd (snd (last ss)))\<rparr>"
      and len: "length (reviews (submit_all ?d1 uid pid ss)) =
         length (reviews ?d1) + (1 - length (filter ?P (reviews ?d1)))"
      by blast
    have inplace: "\<forall>e. filter ?P (reviews d) = [e] \<longrightarrow>
        r2 = e\<lparr>r_rating := fst (snd (last ss)), r_comment := or_null (snd (snd (last ss)))\<rparr>"
      using r2(4) row(1,4) by auto
    from r2 inplace len row(1) st(4) False show ?thesis by simp
  qed
qed

theorem review_upsert_sequence_last_wins_witness:
  "length (filter (review_of 1 2) (reviews db0)) \<le> 1 \<and> project_by_id db0 1 \<noteq> None
   \<and> user_by_id db0 2 \<noteq> None
   \<and> (\<exists>row. filter (review_of 1 2)
          (reviews (submit_all db0 2 1 [(100, 4, None), (200, 2, Some ''better'')])) = [row]
        \<and> r_rating row = 2 \<and> r_comment row = Some ''better'')
   \<and> length (reviews (submit_all db0 2 1 [(100, 4, None), (200, 2, Some ''better'')])) = 1"
  using review_upsert_sequence_last_wins
    [of 1 2 db0 "[(100, 4, None), (200, 2, Some ''better'')]"]
  by (simp add: db0_def project_by_id_def user_by_id_def alice_def bob_def thermostat_def
      or_null_def)

text \<open>
  Claim C1 as stated fails on the comment: user 2 reviews project 1 with rating 4 and
  the comment \<open>''''\<close>; the review is accepted (201) and the one row of the pair holds
  \<^verbatim>\<open>NULL\<close>, not the submitted empty string.
\<close>

theorem review_upsert_empty_comment_counterexample:
  "fst (fst (review_upsert db0 100 2 1 (Some 4) (Some ''''))) = 201
   \<and> map r_comment (filter (review_of 1 2)
         (reviews (snd (review_upsert db0 100 2 1 (Some 4) (Some ''''))))) = [None]
   \<and> (None :: string option) \<noteq> Some ''''"
  by (simp add: review_upsert_def insert_review_def review_by_pair_def project_by_id_def
      user_by_id_def or_null_def next_rowid_def review_of_def db0_def alice_def bob_def
      thermostat_def)

section \<open>The review upsert: the stored rating\<close>

text \<open>
  Claim C8 at the input that breaks it. User 2 posts \<^verbatim>\<open>{"rating": 2.5}\<close> on project 1.
  The handler's check \<^verbatim>\<open>!rating || rating < 1 || rating > 5\<close> lets 2.5 through, the
  \<^verbatim>\<open>CHECK\<close> constraint holds, and the row is stored with rating 5/2, which is no integer.
\<close>

theorem review_upsert_stores_fractional_rating:
  "review_upsert db0 100 2 1 (Some (5 / 2)) None =
     ((201, MessageBody ''Review added successfully''),
      db0\<lparr>reviews := [\<lparr>r_id = 1, r_project_id = 1, r_reviewer_id = 2, r_rating = 5 / 2,
                        r_comment = None, r_created_at = 100\<rparr>],
          seq_reviews := 1\<rparr>)
   \<and> \<not> is_integer (5 / 2)"
proof -
  have "\<not> is_integer (5 / 2)" unfolding is_integer_def by code_simp
  then show ?thesis
    by (simp add: review_upsert_def insert_review_def review_by_pair_def project_by_id_def
      user_by_id_def or_null_def next_rowid_def review_of_def db0_def alice_def bob_def
      thermostat_def)
qed

text \<open>
  What does hold of the rating: a request without a rating or with one outside 1 to 5
  answers 400 and stores nothing, and the upsert keeps every stored rating between 1
  and 5.
\<close>

lemma review_upsert_rejected:
  "rating = None \<or> (\<exists>x. rating = Some x \<and> (x < 1 \<or> 5 < x)) \<Longrightarrow>
   review_upsert d now uid pid rating comment =
     ((400, ErrorBody ''Rating must be between 1 and 5''), d)"
  by (auto simp: review_upsert_def)

lemma review_upsert_rating_in_range:
  assumes "list_all (\<lambda>r. 1 \<le> r_rating r \<and> r_rating r \<le> 5) (reviews d)"
  shows "list_all (\<lambda>r. 1 \<le> r_rating r \<and> r_rating r \<le> 5)
           (reviews (snd (review_upsert d now uid pid rating comment)))"
  using assms
  by (auto simp: review_upsert_def update_review_def insert_review_def Let_def set_review_def
      list_all_iff split: option.splits if_splits sum.splits)

section \<open>The review upsert: what the update path leaves alone\<close>

text \<open>
  Claim C10. When the reviewer already has a review \<open>e\<close> of the project and the
  submission is accepted, the handler answers 200 and: every row of the table keeps its
  id, project id, reviewer id and creation time (so no timestamp is refreshed); the rows
  whose id is not that of \<open>e\<close> are unchanged; the rows with the id of \<open>e\<close> change in
  rating and comment only; nothing outside the reviews table changes.
\<close>

theorem review_upsert_update_frame:
  assumes "review_by_pair d pid uid = Some e" and "project_by_id d pid \<noteq> None"
    and "1 \<le> x" and "x \<le> 5"
  shows "fst (review_upsert d now uid pid (Some x) c) =
           (200, MessageBody ''Review updated successfully'')
       \<and> map r_id (reviews (snd (review_upsert d now uid pid (Some x) c))) = map r_id (reviews d)
       \<and> map r_project_id (reviews (snd (review_upsert d now uid pid (Some x) c))) =
           map r_project_id (reviews d)
       \<and> map r_reviewer_id (reviews (snd (review_upsert d now uid pid (Some x) c))) =
           map r_reviewer_id (reviews d)
       \<and> map r_created_at (reviews (snd (review_upsert d now uid pid (Some x) c))) =
           map r_created_at (reviews d)
       \<and> filter (\<lambda>r. r_id r \<noteq> r_id e) (reviews (snd (review_upsert d now uid pid (Some x) c))) =
           filter (\<lambda>r. r_id r \<noteq> r_id e) (reviews d)
       \<and> filter (\<lambda>r. r_id r = r_id e) (reviews (snd (review_upsert d now uid pid (Some x) c))) =
           map (\<lambda>r. r\<lparr>r_rating := x, r_comment := or_null c\<rparr>)
             (filter (\<lambda>r. r_id r = r_id e) (reviews d))
       \<and> snd (review_upsert d now uid pid (Some x) c) =
           d\<lparr>reviews := reviews (snd (review_upsert d now uid pid (Some x) c))\<rparr>"
proof -
  have col: "r_id (set_review i x c' r) = r_id r"
    "r_project_id (set_review i x c' r) = r_project_id r"
    "r_reviewer_id (set_review i x c' r) = r_reviewer_id r"
    "r_created_at (set_review i x c' r) = r_created_at r"
    for i c' r
    by (simp_all add: set_review_def)
  have fil: "filter (\<lambda>r. r_id r \<noteq> i) (map (set_review i x c') rs) =
      filter (\<lambda>r. r_id r \<noteq> i) rs"
    "filter (\<lambda>r. r_id r = i) (map (set_review i x c') rs) =
       map (\<lambda>r. r\<lparr>r_rating := x, r_comment := c'\<rparr>) (filter (\<lambda>r. r_id r = i) rs)"
    for i c' and rs :: "review_row list"
    by (induction rs) (simp_all add: set_review_def)
  from upsert_update_path[OF assms(1,3,4,2)] show ?thesis
    by (simp add: col fil)
qed

theorem review_upsert_update_frame_witness:
  "review_by_pair db1 1 2 \<noteq> None \<and> project_by_id db1 1 \<noteq> None
   \<and> map r_created_at (reviews (snd (review_upsert db1 900 2 1 (Some 2) (Some ''again'')))) = [100]
   \<and> map r_id (reviews (snd (review_upsert db1 900 2 1 (Some 2) (Some ''again'')))) = [1]
   \<and> map r_rating (reviews (snd (review_upsert db1 900 2 1 (Some 2) (Some ''again'')))) = [2]"
proof -
  have e: "review_by_pair db1 1 2 = Some \<lparr>r_id = 1, r_project_id = 1, r_reviewer_id = 2,
      r_rating = 4, r_comment = Some ''good'', r_created_at = 100\<rparr>"
    by (simp add: db1_def review_by_pair_def review_of_def)
  have p: "project_by_id db1 1 \<noteq> None"
    by (simp add: db1_def project_by_id_def db0_def thermostat_def)
  have ev: "reviews (snd (review_upsert db1 900 2 1 (Some 2) (Some ''again''))) =
      [\<lparr>r_id = 1, r_project_id = 1, r_reviewer_id = 2, r_rating = 2,
        r_comment = Some ''again'', r_created_at = 100\<rparr>]"
    by (simp add: review_upsert_def update_review_def review_by_pair_def review_of_def
        project_by_id_def db1_def db0_def thermostat_def set_review_def or_null_def)
  have r: "reviews db1 = [\<lparr>r_id = 1, r_project_id = 1, r_reviewer_id = 2,
      r_rating = 4, r_comment = Some ''good'', r_created_at = 100\<rparr>]"
    by (simp add: db1_def)
  from review_upsert_update_frame[OF e p, of 2 900 "Some ''again''"] e p ev r
  show ?thesis
    by simp
qed

section \<open>Ownership: update and delete of a project\<close>

lemma find_None_filter: "find P xs = None \<longleftrightarrow> filter P xs = []"
  by (induction xs) auto

lemma project_update_missing:
  "project_by_id d pid = None \<Longrightarrow>
   project_update d uid pid b = ((404, ErrorBody ''Project not found''), d)"
  by (simp add: project_update_def)

lemma project_delete_missing:
  "project_by_id d pid = None \<Longrightarrow>
   project_delete d uid pid = ((404, ErrorBody ''Project not found''), d)"
  by (simp add: project_delete_def)

lemma project_update_forbidden:
  "project_by_id d pid = Some p \<Longrightarrow> p_author_id p \<noteq> uid \<Longrightarrow>
   project_update d uid pid b = ((403, ErrorBody ''You can only edit your own projects''), d)"
  by (simp add: project_update_def)

lemma project_delete_forbidden:
  "project_by_id d pid = Some p \<Longrightarrow> p_author_id p \<noteq> uid \<Longrightarrow>
   project_delete d uid pid = ((403, ErrorBody ''You can only delete your own projects''), d)"
  by (simp add: project_delete_def)

lemma project_update_author:
  assumes "project_by_id d pid = Some p" and "p_author_id p = uid"
    and "b_title b = Some t" and "b_description b = Some ds"
  shows "project_update d uid pid b =
     ((200, MessageBody ''Project updated successfully''),
      d\<lparr>projects := map (set_project pid t ds b) (projects d)\<rparr>)"
  using assms by (simp add: project_update_def update_project_def)

lemma project_update_changes_only_for_author:
  "snd (project_update d uid pid b) \<noteq> d \<Longrightarrow>
   \<exists>p. project_by_id d pid = Some p \<and> p_author_id p = uid"
  by (auto simp: project_update_def split: option.splits if_splits sum.splits)

lemma project_delete_changes_only_for_author:
  "snd (project_delete d uid pid) \<noteq> d \<Longrightarrow>
   \<exists>p. project_by_id d pid = Some p \<and> p_author_id p = uid"
  by (auto simp: project_delete_def split: option.splits if_splits sum.splits)

lemma delete_project_row_after_dependents:
  "delete_project_row pid (delete_files_of pid (delete_reviews_of pid d)) =
     Inr (d\<lparr>reviews := filter (\<lambda>r. r_project_id r \<noteq> pid) (reviews d),
            project_files := filter (\<lambda>f. f_project_id f \<noteq> pid) (project_files d),
            projects := filter (\<lambda>p. p_id p \<noteq> pid) (projects d)\<rparr>)"
  by (simp add: delete_project_row_def delete_files_of_def delete_reviews_of_def list_ex_iff)

lemma project_delete_author:
  assumes "project_by_id d pid = Some p" and "p_author_id p = uid"
  shows "project_delete d uid pid =
     ((200, MessageBody ''Project deleted successfully''),
      d\<lparr>reviews := filter (\<lambda>r. r_project_id r \<noteq> pid) (reviews d),
        project_files := filter (\<lambda>f. f_project_id f \<noteq> pid) (project_files d),
        projects := filter (\<lambda>p. p_id p \<noteq> pid) (projects d)\<rparr>)"
  using assms by (simp add: project_delete_def delete_project_row_after_dependents)

lemma set_project_filters:
  "filter (\<lambda>q. p_id q \<noteq> i) (map (set_project i t ds b) ps) = filter (\<lambda>q. p_id q \<noteq> i) ps"
  "filter (\<lambda>q. p_id q = i) (map (set_project i t ds b) ps) =
     map (\<lambda>q. q\<lparr>p_title := t, p_description := ds, p_section := b_section b,
                p_group_number := b_group_number b, p_full_name := b_full_name b,
                p_matricule := b_matricule b\<rparr>) (filter (\<lambda>q. p_id q = i) ps)"
  by (induction ps) (simp_all add: set_project_def)

text \<open>
  Claim C3. For the update and the delete of a project by the authenticated user \<open>uid\<close>:
  when no project has the id, both answer 404 and leave the database as it is; when the
  project's author is another user, both answer 403 and leave the database (the project
  and its dependent rows included) as it is; whenever either handler changes the
  database, the project exists and \<open>uid\<close> is its author; an update by the author that
  carries a title and a description answers 200 and replaces all six editable fields by
  the fields of the request (an absent optional field becomes \<^verbatim>\<open>NULL\<close>), in the rows of
  that id only and in no other column or table; a delete by the author answers 200 and
  removes the project's reviews, its attachments and its row.
\<close>

theorem project_update_delete_ownership:
  "(project_by_id d pid = None \<longrightarrow>
      project_update d uid pid b = ((404, ErrorBody ''Project not found''), d)
      \<and> project_delete d uid pid = ((404, ErrorBody ''Project not found''), d))
   \<and> (\<forall>p. project_by_id d pid = Some p \<and> p_author_id p \<noteq> uid \<longrightarrow>
      project_update d uid pid b =
        ((403, ErrorBody ''You can only edit your own projects''), d)
      \<and> project_delete d uid pid =
        ((403, ErrorBody ''You can only delete your own projects''), d))
   \<and> (snd (project_update d uid pid b) \<noteq> d \<or> snd (project_delete d uid pid) \<noteq> d \<longrightarrow>
      (\<exists>p. project_by_id d pid = Some p \<and> p_author_id p = uid))
   \<and> (\<forall>p t ds. project_by_id d pid = Some p \<and> p_author_id p = uid
         \<and> b_title b = Some t \<and> b_description b = Some ds \<longrightarrow>
      fst (project_update d uid pid b) = (200, MessageBody ''Project updated successfully'')
      \<and> filter (\<lambda>q. p_id q = pid) (projects (snd (project_update d uid pid b))) =
          map (\<lambda>q. q\<lparr>p_title := t, p_description := ds, p_section := b_section b,
                     p_group_number := b_group_number b, p_full_name := b_full_name b,
                     p_matricule := b_matricule b\<rparr>)
            (filter (\<lambda>q. p_id q = pid) (projects d))
      \<and> filter (\<lambda>q. p_id q \<noteq> pid) (projects (snd (project_update d uid pid b))) =
          filter (\<lambda>q. p_id q \<noteq> pid) (projects d)
      \<and> snd (project_update d uid pid b) =
          d\<lparr>projects := projects (snd (project_update d uid pid b))\<rparr>)
   \<and> (\<forall>p. project_by_id d pid = Some p \<and> p_author_id p = uid \<longrightarrow>
      project_delete d uid pid =
        ((200, MessageBody ''Project deleted successfully''),
         d\<lparr>reviews := filter (\<lambda>r. r_project_id r \<noteq> pid) (reviews d),
           project_files := filter (\<lambda>f. f_project_id f \<noteq> pid) (project_files d),
           projects := filter (\<lambda>p. p_id p \<noteq> pid) (projects d)\<rparr>))"
proof (intro conjI allI impI)
  assume "project_by_id d pid = None"
  then show "project_update d uid pid b = ((404, ErrorBody ''Project not found''), d)"
    and "project_delete d uid pid = ((404, ErrorBody ''Project not found''), d)"
    by (rule project_update_missing, rule project_delete_missing)
next
  fix p assume "project_by_id d pid = Some p \<and> p_author_id p \<noteq> uid"
  then show "project_update d uid pid b =
        ((403, ErrorBody ''You can only edit your own projects''), d)"
    and "project_delete d uid pid =
        ((403, ErrorBody ''You can only delete your own projects''), d)"
    by (simp_all add: project_update_forbidden project_delete_forbidden)
next
  assume "snd (project_update d uid pid b) \<noteq> d \<or> snd (project_delete d uid pid) \<noteq> d"
  then show "\<exists>p. project_by_id d pid = Some p \<and> p_author_id p = uid"
    using project_update_changes_only_for_author project_delete_changes_only_for_author
    by blast
next
  fix p t ds
  assume a: "project_by_id d pid = Some p \<and> p_author_id p = uid
         \<and> b_title b = Some t \<and> b_description b = Some ds"
  then have u: "project_update d uid pid b =
     ((200, MessageBody ''Project updated successfully''),
      d\<lparr>projects := map (set_project pid t ds b) (projects d)\<rparr>)"
    by (simp add: project_update_author)
  show "fst (project_update d uid pid b) = (200, MessageBody ''Project updated successfully'')"
    by (simp add: u)
  show "filter (\<lambda>q. p_id q = pid) (projects (snd (project_update d uid pid b))) =
          map (\<lambda>q. q\<lparr>p_title := t, p_description := ds, p_section := b_section b,
                     p_group_number := b_group_number b, p_full_name := b_full_name b,
                     p_matricule := b_matricule b\<rparr>)
            (filter (\<lambda>q. p_id q = pid) (projects d))"
    by (simp add: u set_project_filters)
  show "filter (\<lambda>q. p_id q \<noteq> pid) (projects (snd (project_update d uid pid b))) =
          filter (\<lambda>q. p_id q \<noteq> pid) (projects d)"
    by (simp add: u set_project_filters)
  show "snd (project_update d uid pid b) =
          d\<lparr>projects := projects (snd (project_update d uid pid b))\<rparr>"
    by (simp add: u)
next
  fix p assume "project_by_id d pid = Some p \<and> p_author_id p = uid"
  then show "project_delete d uid pid =
        ((200, MessageBody ''Project deleted successfully''),
         d\<lparr>reviews := filter (\<lambda>r. r_project_id r \<noteq> pid) (reviews d),
           project_files := filter (\<lambda>f. f_project_id f \<noteq> pid) (project_files d),
           projects := filter (\<lambda>p. p_id p \<noteq> pid) (projects d)\<rparr>)"
    by (simp add: project_delete_author)
qed

theorem project_update_delete_ownership_witness:
  "project_by_id db1 9 = None
   \<and> project_update db1 2 9 new_fields = ((404, ErrorBody ''Project not found''), db1)
   \<and> project_delete db1 2 9 = ((404, ErrorBody ''Project not found''), db1)
   \<and> project_by_id db1 1 = Some thermostat \<and> p_author_id thermostat \<noteq> 2
   \<and> project_update db1 2 1 new_fields =
        ((403, ErrorBody ''You can only edit your own projects''), db1)
   \<and> project_delete db1 2 1 =
        ((403, ErrorBody ''You can only delete your own projects''), db1)
   \<and> p_author_id thermostat = 1
   \<and> fst (project_update db1 1 1 new_fields) =
        (200, MessageBody ''Project updated successfully'')
   \<and> projects (snd (project_update db1 1 1 new_fields)) =
        [thermostat\<lparr>p_title := ''Thermostat PID v2'',
           p_description := ''A better PID controller'', p_section := None,
           p_group_number := Some ''3''\<rparr>]
   \<and> project_delete db1 1 1 =
        ((200, MessageBody ''Project deleted successfully''),
         db1\<lparr>reviews := [], project_files := [], projects := []\<rparr>)"
proof -
  have a: "project_by_id db1 9 = None" "project_by_id db1 1 = Some thermostat"
    by (simp_all add: project_by_id_def db1_def db0_def thermostat_def)
  have b: "p_author_id thermostat = 1" "b_title new_fields = Some ''Thermostat PID v2''"
    "b_description new_fields = Some ''A better PID controller''"
    "b_section new_fields = None" "b_group_number new_fields = Some ''3''"
    "b_full_name new_fields = None" "b_matricule new_fields = None"
    by (simp_all add: thermostat_def new_fields_def)
  have c: "projects db1 = [thermostat]" "p_id thermostat = 1"
    "reviews db1 = [\<lparr>r_id = 1, r_project_id = 1, r_reviewer_id = 2, r_rating = 4,
                        r_comment = Some ''good'', r_created_at = 100\<rparr>]"
    "project_files db1 = []" "p_section thermostat = Some ''A''"
    "p_full_name thermostat = None" "p_matricule thermostat = None"
    by (simp_all add: db1_def db0_def thermostat_def)
  have upd: "projects (snd (project_update db1 1 1 new_fields)) =
        [thermostat\<lparr>p_title := ''Thermostat PID v2'',
           p_description := ''A better PID controller'', p_section := None,
           p_group_number := Some ''3''\<rparr>]"
    by (simp add: project_update_def update_project_def project_by_id_def set_project_def
        db1_def db0_def thermostat_def new_fields_def)
  from project_update_delete_ownership[of db1 9 2 new_fields]
    project_update_delete_ownership[of db1 1 2 new_fields]
    project_update_delete_ownership[of db1 1 1 new_fields] a b c upd
  show ?thesis by simp
qed

text \<open>
  An update by the author without a title or without a description violates
  \<^verbatim>\<open>NOT NULL\<close>: the answer is 500 and nothing is changed.
\<close>

lemma project_update_null_title:
  assumes "project_by_id d pid = Some p" and "p_author_id p = uid"
    and "b_title b = None \<or> b_description b = None"
  shows "project_update d uid pid b = ((500, ErrorBody ''Failed to update project''), d)"
proof -
  from assms(1) have "list_ex (\<lambda>q. p_id q = pid) (projects d)"
    by (auto simp: project_by_id_def find_Some_iff list_ex_iff)
  with assms show ?thesis
    by (auto simp: project_update_def update_project_def split: option.splits)
qed

section \<open>Cascading delete\<close>

lemma project_get_missing:
  "project_by_id d pid = None \<Longrightarrow>
   project_get pick d pid = (404, ErrorBody ''Project not found'')"
  by (simp add: project_get_def project_by_id_def find_None_filter select_projects_def
      List.map_filter_simps)

text \<open>
  Claim C4. When the author deletes a project, the handler answers 200 and its three
  statements run in this order and all succeed: after the first the project has no
  review left, its attachments and its row still being there; after the second it has
  no attachment left either, its row still being there; the third then removes the row
  without violating a foreign key. No dependent row of the project is left, the rows of
  other projects are untouched, a database without orphaned rows has none at any of the
  three stages, and a get of the project id afterwards answers 404.
\<close>

theorem project_delete_cascade:
  assumes "project_by_id d pid = Some p" and "p_author_id p = uid"
  shows "\<exists>d3. delete_project_row pid (delete_files_of pid (delete_reviews_of pid d)) = Inr d3
       \<and> project_delete d uid pid = ((200, MessageBody ''Project deleted successfully''), d3)
       \<and> reviews_of (delete_reviews_of pid d) pid = []
       \<and> files_of (delete_reviews_of pid d) pid = files_of d pid
       \<and> project_by_id (delete_reviews_of pid d) pid = Some p
       \<and> reviews_of (delete_files_of pid (delete_reviews_of pid d)) pid = []
       \<and> files_of (delete_files_of pid (delete_reviews_of pid d)) pid = []
       \<and> project_by_id (delete_files_of pid (delete_reviews_of pid d)) pid = Some p
       \<and> reviews_of d3 pid = [] \<and> files_of d3 pid = [] \<and> project_by_id d3 pid = None
       \<and> project_get pick d3 pid = (404, ErrorBody ''Project not found'')
       \<and> (no_orphans d \<longrightarrow>
            no_orphans (delete_reviews_of pid d)
            \<and> no_orphans (delete_files_of pid (delete_reviews_of pid d))
            \<and> no_orphans d3)
       \<and> filter (\<lambda>r. r_project_id r \<noteq> pid) (reviews d3) =
           filter (\<lambda>r. r_project_id r \<noteq> pid) (reviews d)
       \<and> filter (\<lambda>f. f_project_id f \<noteq> pid) (project_files d3) =
           filter (\<lambda>f. f_project_id f \<noteq> pid) (project_files d)
       \<and> filter (\<lambda>q. p_id q \<noteq> pid) (projects d3) = filter (\<lambda>q. p_id q \<noteq> pid) (projects d)
       \<and> users d3 = users d"
proof -
  let ?d1 = "delete_reviews_of pid d"
  let ?d2 = "delete_files_of pid ?d1"
  let ?d3 = "d\<lparr>reviews := filter (\<lambda>r. r_project_id r \<noteq> pid) (reviews d),
            project_files := filter (\<lambda>f. f_project_id f \<noteq> pid) (project_files d),
            projects := filter (\<lambda>p. p_id p \<noteq> pid) (projects d)\<rparr>"
  have s3: "delete_project_row pid ?d2 = Inr ?d3"
    by (rule delete_project_row_after_dependents)
  have del: "project_delete d uid pid =
      ((200, MessageBody ''Project deleted successfully''), ?d3)"
    using assms by (rule project_delete_author)
  have gone: "project_by_id ?d3 pid = None"
    by (simp add: project_by_id_def find_None_filter)
  have step1: "reviews_of ?d1 pid = []" "files_of ?d1 pid = files_of d pid"
    "project_by_id ?d1 pid = Some p"
    using assms(1) by (simp_all add: reviews_of_def files_of_def project_by_id_def
        delete_reviews_of_def)
  have step2: "reviews_of ?d2 pid = []" "files_of ?d2 pid = []"
    "project_by_id ?d2 pid = Some p"
    using assms(1) by (simp_all add: reviews_of_def files_of_def project_by_id_def
        delete_reviews_of_def delete_files_of_def)
  have step3: "reviews_of ?d3 pid = []" "files_of ?d3 pid = []"
    by (simp_all add: reviews_of_def files_of_def)
  have orph: "no_orphans d \<longrightarrow> no_orphans ?d1 \<and> no_orphans ?d2 \<and> no_orphans ?d3"
    by (fastforce simp: no_orphans_def delete_reviews_of_def delete_files_of_def list_all_iff
        list_ex_iff)
  have rest: "filter (\<lambda>r. r_project_id r \<noteq> pid) (reviews ?d3) =
           filter (\<lambda>r. r_project_id r \<noteq> pid) (reviews d)"
    "filter (\<lambda>f. f_project_id f \<noteq> pid) (project_files ?d3) =
           filter (\<lambda>f. f_project_id f \<noteq> pid) (project_files d)"
    "filter (\<lambda>q. p_id q \<noteq> pid) (projects ?d3) = filter (\<lambda>q. p_id q \<noteq> pid) (projects d)"
    "users ?d3 = users d"
    by simp_all
  show ?thesis
    apply (rule exI[of _ ?d3])
    using s3 del gone step1 step2 step3 orph rest project_get_missing[OF gone, of pick]
    by (intro conjI) assumption+
qed

lemma delete_project_row_referenced:
  "list_ex (\<lambda>p. p_id p = pid) (projects d) \<Longrightarrow>
   list_ex (\<lambda>r. r_project_id r = pid) (reviews d)
     \<or> list_ex (\<lambda>f. f_project_id f = pid) (project_files d) \<Longrightarrow>
   delete_project_row pid d = Inl SQLITE_CONSTRAINT_FOREIGNKEY"
  by (simp add: delete_project_row_def)

theorem project_delete_cascade_witness:
  "project_by_id db1 1 = Some thermostat \<and> p_author_id thermostat = 1 \<and> no_orphans db1
   \<and> reviews_of db1 1 \<noteq> []
   \<and> project_delete db1 1 1 = ((200, MessageBody ''Project deleted successfully''),
        db1\<lparr>reviews := [], project_files := [], projects := []\<rparr>)
   \<and> no_orphans (db1\<lparr>reviews := [], project_files := [], projects := []\<rparr>)
   \<and> project_get first_row (db1\<lparr>reviews := [], project_files := [], projects := []\<rparr>) 1
       = (404, ErrorBody ''Project not found'')"
proof -
  have a: "project_by_id db1 1 = Some thermostat" "p_author_id thermostat = 1"
    by (simp_all add: project_by_id_def db1_def db0_def thermostat_def)
  have o: "no_orphans db1" "reviews_of db1 1 \<noteq> []"
    by (simp_all add: no_orphans_def reviews_of_def db1_def db0_def thermostat_def)
  have s3: "delete_project_row 1 (delete_files_of 1 (delete_reviews_of 1 db1)) =
      Inr (db1\<lparr>reviews := [], project_files := [], projects := []\<rparr>)"
    by (simp add: delete_project_row_after_dependents db1_def db0_def thermostat_def)
  from project_delete_cascade[OF a, of first_row] a o s3 show ?thesis
    by auto
qed

section \<open>Registration: validation and conflict\<close>

lemma emailRegex_test_Nil: "\<not> emailRegex_test []"
  by (simp add: emailRegex_test_def)

lemma find_not_None: "find P xs \<noteq> None \<longleftrightarrow> list_ex P xs"
  by (induction xs) auto

lemma user_lookup_iff:
  "user_by_email_or_username d e n \<noteq> None \<longleftrightarrow>
   list_ex (\<lambda>u. u_email u = e \<or> u_username u = n) (users d)"
proof -
  have "user_by_email_or_username d e n \<noteq> None \<longleftrightarrow>
      find (\<lambda>u. u_email u = e) (users d) \<noteq> None
      \<or> find (\<lambda>u. u_username u = n) (users d) \<noteq> None"
    by (simp add: user_by_email_or_username_def split: option.splits)
  also have "\<dots> \<longleftrightarrow> list_ex (\<lambda>u. u_email u = e) (users d)
      \<or> list_ex (\<lambda>u. u_username u = n) (users d)"
    by (simp only: find_not_None)
  also have "\<dots> \<longleftrightarrow> list_ex (\<lambda>u. u_email u = e \<or> u_username u = n) (users d)"
    by (auto simp: list_ex_iff)
  finally show ?thesis .
qed

lemma register_invalid:
  assumes "(case username of None \<Rightarrow> True | Some n \<Rightarrow> length n < 3)
      \<or> (case password of None \<Rightarrow> True | Some pw \<Rightarrow> length pw < 6)
      \<or> (case email of None \<Rightarrow> True | Some e \<Rightarrow> \<not> emailRegex_test e)"
  shows "fst (fst (register l d now username email password)) = 400
      \<and> snd (register l d now username email password) = d"
  using assms by (auto simp: register_def split: option.splits)

lemma register_conflict:
  assumes "3 \<le> length n" and "6 \<le> length pw" and "emailRegex_test e"
    and "list_ex (\<lambda>u. u_email u = e \<or> u_username u = n) (users d)"
  shows "register l d now (Some n) (Some e) (Some pw) =
     ((409, ErrorBody ''Username or email already exists''), d)"
proof -
  have "n \<noteq> []" "pw \<noteq> []" "e \<noteq> []"
    using assms(1,2,3) emailRegex_test_Nil by auto
  moreover have "user_by_email_or_username d e n \<noteq> None"
    using assms(4) by (simp only: user_lookup_iff)
  ultimately show ?thesis
    using assms(1,2,3) by (auto simp: register_def)
qed

lemma register_created:
  assumes "register l d now (Some n) (Some e) (Some pw) = ((201, r), d')"
  shows "list_ex (\<lambda>u. u_email u = e \<and> u_username u = n) (users d')"
  using assms
  by (auto simp: register_def insert_user_def Let_def split: if_splits sum.splits)

text \<open>
  Claim C5. Validation comes first and conflict second. A registration whose username
  is absent or shorter than 3 characters, or whose password is absent or shorter than 6,
  or whose email is absent or does not match the pattern, answers 400 and creates no
  user, whatever the other fields and the database are. A registration that passes
  these checks and whose username or email is that of an existing user answers 409 and
  creates no user. After a registration that succeeded, every registration that passes
  the checks and repeats its username or its email answers 409.
\<close>

theorem register_validation_and_conflict:
  "((case username of None \<Rightarrow> True | Some n \<Rightarrow> length n < 3)
      \<or> (case password of None \<Rightarrow> True | Some pw \<Rightarrow> length pw < 6)
      \<or> (case email of None \<Rightarrow> True | Some e \<Rightarrow> \<not> emailRegex_test e) \<longrightarrow>
     fst (fst (register l d now username email password)) = 400
     \<and> snd (register l d now username email password) = d)
   \<and> (\<forall>n e pw. 3 \<le> length n \<and> 6 \<le> length pw \<and> emailRegex_test e
         \<and> list_ex (\<lambda>u. u_email u = e \<or> u_username u = n) (users d) \<longrightarrow>
       register l d now (Some n) (Some e) (Some pw) =
         ((409, ErrorBody ''Username or email already exists''), d))
   \<and> (\<forall>n e pw r d' n2 e2 pw2 now2.
         register l d now (Some n) (Some e) (Some pw) = ((201, r), d')
         \<and> (n2 = n \<or> e2 = e)
         \<and> 3 \<le> length n2 \<and> 6 \<le> length pw2 \<and> emailRegex_test e2 \<longrightarrow>
       register l d' now2 (Some n2) (Some e2) (Some pw2) =
         ((409, ErrorBody ''Username or email already exists''), d'))"
proof (intro conjI allI impI)
  assume "(case username of None \<Rightarrow> True | Some n \<Rightarrow> length n < 3)
      \<or> (case password of None \<Rightarrow> True | Some pw \<Rightarrow> length pw < 6)
      \<or> (case email of None \<Rightarrow> True | Some e \<Rightarrow> \<not> emailRegex_test e)"
  from register_invalid[OF this]
  show "fst (fst (register l d now username email password)) = 400"
    and "snd (register l d now username email password) = d" by simp_all
next
  fix n e pw :: string
  assume "3 \<le> length n \<and> 6 \<le> length pw \<and> emailRegex_test e
         \<and> list_ex (\<lambda>u. u_email u = e \<or> u_username u = n) (users d)"
  then show "register l d now (Some n) (Some e) (Some pw) =
         ((409, ErrorBody ''Username or email already exists''), d)"
    by (simp add: register_conflict)
next
  fix n e pw n2 e2 pw2 :: string and r d' now2
  assume a: "register l d now (Some n) (Some e) (Some pw) = ((201, r), d')
         \<and> (n2 = n \<or> e2 = e)
         \<and> 3 \<le> length n2 \<and> 6 \<le> length pw2 \<and> emailRegex_test e2"
  then have "list_ex (\<lambda>u. u_email u = e \<and> u_username u = n) (users d')"
    using register_created by blast
  with a have "list_ex (\<lambda>u. u_email u = e2 \<or> u_username u = n2) (users d')"
    by (auto simp: list_ex_iff)
  with a show "register l d' now2 (Some n2) (Some e2) (Some pw2) =
         ((409, ErrorBody ''Username or email already exists''), d')"
    by (simp add: register_conflict)
qed

lemma email_ok: "emailRegex_test ''carol@usthb.dz''"
  unfolding emailRegex_test_def by code_simp

lemma email_bad: "\<not> emailRegex_test ''carol@usthb''"
  unfolding emailRegex_test_def by code_simp


lemma email_ok2: "emailRegex_test ''other@usthb.dz''"
  unfolding emailRegex_test_def by code_simp

lemma register_carol:
  "register sample_lib db0 500 (Some ''carol'') (Some ''carol@usthb.dz'') (Some ''secret1'') =
     ((201, AuthBody ''Registration successful'' ''token-carol'' 3 ''carol'' ''carol@usthb.dz''),
      db0\<lparr>users := [alice, bob,
            \<lparr>u_id = 3, u_username = ''carol'', u_email = ''carol@usthb.dz'',
              u_password = ''hash-secret1'', u_full_name = None, u_profile_picture = None,
              u_bio = None, u_created_at = 500\<rparr>],
          seq_users := 3\<rparr>)"
  using email_ok
  by (simp add: register_def user_by_email_or_username_def insert_user_def next_rowid_def
      sample_lib_def db0_def alice_def bob_def)

theorem register_validation_and_conflict_witness:
  "fst (fst (register sample_lib db0 500 (Some ''al'') (Some ''carol@usthb.dz'')
       (Some ''secret1''))) = 400
   \<and> fst (fst (register sample_lib db0 500 (Some ''carol'') (Some ''carol@usthb.dz'')
       (Some ''abc''))) = 400
   \<and> fst (fst (register sample_lib db0 500 (Some ''carol'') (Some ''carol@usthb'')
       (Some ''secret1''))) = 400
   \<and> fst (fst (register sample_lib db0 500 (Some ''alice'') (Some ''carol@usthb.dz'')
       (Some ''secret1''))) = 409
   \<and> fst (fst (register sample_lib db0 500 (Some ''carol'') (Some ''alice@usthb.dz'')
       (Some ''secret1''))) = 409
   \<and> fst (fst (register sample_lib db0 500 (Some ''carol'') (Some ''carol@usthb.dz'')
       (Some ''secret1''))) = 201
   \<and> fst (fst (register sample_lib
       (snd (register sample_lib db0 500 (Some ''carol'') (Some ''carol@usthb.dz'')
          (Some ''secret1'')))
       600 (Some ''carol'') (Some ''other@usthb.dz'') (Some ''secret2''))) = 409"
proof -
  have alice_mail: "emailRegex_test ''alice@usthb.dz''"
    unfolding emailRegex_test_def by code_simp
  have ex: "list_ex (\<lambda>u. u_email u = ''carol@usthb.dz'' \<or> u_username u = ''alice'') (users db0)"
    "list_ex (\<lambda>u. u_email u = ''alice@usthb.dz'' \<or> u_username u = ''carol'') (users db0)"
    by (simp_all add: db0_def alice_def bob_def)
  note t = register_validation_and_conflict
  have conflict: "register sample_lib db0 500 (Some n) (Some e) (Some pw) =
      ((409, ErrorBody ''Username or email already exists''), db0)"
    if "3 \<le> length n" "6 \<le> length pw" "emailRegex_test e"
      "list_ex (\<lambda>u. u_email u = e \<or> u_username u = n) (users db0)" for n e pw
    using t[of None None None sample_lib db0 500] that by blast
  have again: "register sample_lib d' 600 (Some n2) (Some e2) (Some pw2) =
      ((409, ErrorBody ''Username or email already exists''), d')"
    if "register sample_lib db0 500 (Some n) (Some e) (Some pw) = ((201, r), d')"
      "n2 = n \<or> e2 = e" "3 \<le> length n2" "6 \<le> length pw2" "emailRegex_test e2"
    for n e pw r d' n2 e2 pw2
    using t[of None None None sample_lib db0 500] that by blast
  have 1: "fst (fst (register sample_lib db0 500 (Some ''al'') (Some ''carol@usthb.dz'')
       (Some ''secret1''))) = 400"
    using t[of "Some ''al''" "Some ''secret1''" "Some ''carol@usthb.dz''" sample_lib db0 500]
    by simp
  have 2: "fst (fst (register sample_lib db0 500 (Some ''carol'') (Some ''carol@usthb.dz'')
       (Some ''abc''))) = 400"
    using t[of "Some ''carol''" "Some ''abc''" "Some ''carol@usthb.dz''" sample_lib db0 500]
    by simp
  have 3: "fst (fst (register sample_lib db0 500 (Some ''carol'') (Some ''carol@usthb'')
       (Some ''secret1''))) = 400"
    using t[of "Some ''carol''" "Some ''secret1''" "Some ''carol@usthb''" sample_lib db0 500]
      email_bad by simp
  have 4: "fst (fst (register sample_lib db0 500 (Some ''alice'') (Some ''carol@usthb.dz'')
       (Some ''secret1''))) = 409"
    using conflict[of "''alice''" "''secret1''" "''carol@usthb.dz''"] ex(1) email_ok by simp
  have 5: "fst (fst (register sample_lib db0 500 (Some ''carol'') (Some ''alice@usthb.dz'')
       (Some ''secret1''))) = 409"
    using conflict[of "''carol''" "''secret1''" "''alice@usthb.dz''"] ex(2) alice_mail by simp
  have 6: "fst (fst (register sample_lib db0 500 (Some ''carol'') (Some ''carol@usthb.dz'')
       (Some ''secret1''))) = 201"
    by (simp add: register_carol)
  have 7: "fst (fst (register sample_lib
       (snd (register sample_lib db0 500 (Some ''carol'') (Some ''carol@usthb.dz'')
          (Some ''secret1'')))
       600 (Some ''carol'') (Some ''other@usthb.dz'') (Some ''secret2''))) = 409"
    using again[OF register_carol, of "''carol''" "''other@usthb.dz''" "''secret2''"] email_ok2
    by (simp add: register_carol)
  from 1 2 3 4 5 6 7 show ?thesis by simp
qed

section \<open>The token check\<close>

lemma js_split_no_sep: "c \<notin> set t \<Longrightarrow> js_split c t = [t]"
  by (induction t) auto

lemma bearer_token_Bearer:
  assumes "CHR '' '' \<notin> set t" and "t \<noteq> []"
  shows "bearer_token (Some (''Bearer '' @ t)) = Some t"
  using assms by (simp add: bearer_token_def js_split_no_sep)

text \<open>
  Claim C6, as amended. On the token check of \<^verbatim>\<open>GET /auth/me\<close>: when no bearer token is
  given (no header, or no second piece in it) the answer is 401; when a token is given
  and its verification fails (whatever the reason: another key, expiry, a malformed
  token) the answer is 403. A header \<^verbatim>\<open>Bearer t\<close> gives the token \<open>t\<close>.
\<close>

theorem auth_me_token_status:
  "(bearer_token h = None \<longrightarrow> auth_me l d h = (401, ErrorBody ''No token provided''))
   \<and> (\<forall>t. bearer_token h = Some t \<and> jwt_verify l t = None \<longrightarrow>
         auth_me l d h = (403, ErrorBody ''Invalid token''))
   \<and> bearer_token None = None \<and> bearer_token (Some ''Bearer'') = None
   \<and> (\<forall>t. CHR '' '' \<notin> set t \<and> t \<noteq> [] \<longrightarrow> bearer_token (Some (''Bearer '' @ t)) = Some t)"
proof (intro conjI allI impI)
  assume "bearer_token h = None"
  then show "auth_me l d h = (401, ErrorBody ''No token provided'')"
    by (simp add: auth_me_def)
next
  fix t assume "bearer_token h = Some t \<and> jwt_verify l t = None"
  then show "auth_me l d h = (403, ErrorBody ''Invalid token'')"
    by (simp add: auth_me_def)
next
  show "bearer_token None = None" "bearer_token (Some ''Bearer'') = None"
    by (simp_all add: bearer_token_def)
next
  fix t :: string assume "CHR '' '' \<notin> set t \<and> t \<noteq> []"
  then show "bearer_token (Some (''Bearer '' @ t)) = Some t"
    using bearer_token_Bearer[of t] by blast
qed

theorem auth_me_token_status_witness:
  "bearer_token None = None \<and> auth_me sample_lib db0 None = (401, ErrorBody ''No token provided'')
   \<and> bearer_token (Some ''Bearer forged-token'') = Some ''forged-token''
   \<and> jwt_verify sample_lib ''forged-token'' = None
   \<and> auth_me sample_lib db0 (Some ''Bearer forged-token'') = (403, ErrorBody ''Invalid token'')"
proof -
  have a: "bearer_token (Some ''Bearer forged-token'') = Some ''forged-token''"
    using bearer_token_Bearer[of "''forged-token''"] by simp
  have b: "jwt_verify sample_lib ''forged-token'' = None"
    by (simp add: sample_lib_def)
  from auth_me_token_status[of None sample_lib db0]
    auth_me_token_status[of "Some ''Bearer forged-token''" sample_lib db0] a b
  show ?thesis by simp
qed

text \<open>
  Claim C6 as stated fails on the second case: a request with a bearer token that the
  verification rejects is answered with 403, not with 401.
\<close>

theorem auth_me_invalid_token_counterexample:
  "jwt_verify sample_lib ''forged-token'' = None
   \<and> auth_me sample_lib db0 (Some ''Bearer forged-token'') = (403, ErrorBody ''Invalid token'')
   \<and> fst (auth_me sample_lib db0 (Some ''Bearer forged-token'')) \<noteq> 401"
  by (simp add: auth_me_def bearer_token_def sample_lib_def)

lemma auth_me_valid:
  "auth_me sample_lib db0 (Some ''Bearer token-alice'') =
     (200, MeBody 1 ''alice'' ''alice@usthb.dz'' 10)"
  by (simp add: auth_me_def bearer_token_def sample_lib_def user_by_id_def db0_def alice_def)

section \<open>The states the service reaches: the invariant\<close>

lemma fold_max_ge: "(s::nat) \<le> fold max ids s \<and> (\<forall>x \<in> set ids. x \<le> fold max ids s)"
proof (induction ids arbitrary: s)
  case Nil
  show ?case by simp
next
  case (Cons a ids)
  from Cons[of "max a s"] show ?case by auto
qed

lemma next_rowid_fresh: "next_rowid s ids \<notin> set ids"
  using fold_max_ge[of s ids] by (auto simp: next_rowid_def)

lemma db_inv_iff:
  "db_inv d \<longleftrightarrow>
     distinct (map u_id (users d)) \<and> distinct (map p_id (projects d))
     \<and> set (map p_author_id (projects d)) \<subseteq> set (map u_id (users d))
     \<and> set (map f_project_id (project_files d)) \<subseteq> set (map p_id (projects d))
     \<and> distinct (map f_project_id (project_files d))"
proof -
  have sub: "(\<forall>x \<in> A. \<exists>y \<in> B. g y = f x) \<longleftrightarrow> f ` A \<subseteq> g ` B"
    for A :: "'a set" and B :: "'b set" and f :: "'a \<Rightarrow> nat" and g
  proof
    assume h: "\<forall>x \<in> A. \<exists>y \<in> B. g y = f x"
    show "f ` A \<subseteq> g ` B"
    proof
      fix t assume "t \<in> f ` A"
      then obtain x where x: "x \<in> A" "t = f x" by blast
      with h obtain y where "y \<in> B" "g y = f x" by blast
      with x show "t \<in> g ` B" by (metis imageI)
    qed
  next
    assume h: "f ` A \<subseteq> g ` B"
    show "\<forall>x \<in> A. \<exists>y \<in> B. g y = f x"
    proof
      fix x assume "x \<in> A"
      then have "f x \<in> g ` B" using h by blast
      then show "\<exists>y \<in> B. g y = f x" by (metis imageE)
    qed
  qed
  show ?thesis
    unfolding db_inv_def list_all_iff list_ex_iff set_map
    by (simp only: sub)
qed

lemma db_inv_same_keys:
  assumes "map u_id (users d') = map u_id (users d)"
    and "map p_id (projects d') = map p_id (projects d)"
    and "map p_author_id (projects d') = map p_author_id (projects d)"
    and "project_files d' = project_files d"
  shows "db_inv d' = db_inv d"
  by (simp only: db_inv_iff assms)

lemma db_inv_empty: "db_inv empty_db"
  by (simp add: db_inv_def empty_db_def)

lemma review_upsert_other_tables:
  "users (snd (review_upsert d now uid pid rating comment)) = users d
   \<and> projects (snd (review_upsert d now uid pid rating comment)) = projects d
   \<and> project_files (snd (review_upsert d now uid pid rating comment)) = project_files d"
  by (simp add: review_upsert_def update_review_def insert_review_def Let_def
      split: option.split sum.split)

lemma db_inv_review_upsert:
  "db_inv d \<Longrightarrow> db_inv (snd (review_upsert d now uid pid rating comment))"
  using db_inv_same_keys[of "snd (review_upsert d now uid pid rating comment)" d]
  by (simp add: review_upsert_other_tables)

lemma db_inv_insert_user:
  assumes "db_inv d" and "insert_user now n e h d = Inr d'"
  shows "db_inv d'"
proof -
  from assms(2) have d': "d' = d\<lparr>users := users d @
            [\<lparr>u_id = next_rowid (seq_users d) (map u_id (users d)), u_username = n,
              u_email = e, u_password = h, u_full_name = None, u_profile_picture = None,
              u_bio = None, u_created_at = now\<rparr>],
        seq_users := next_rowid (seq_users d) (map u_id (users d))\<rparr>"
    by (simp add: insert_user_def Let_def split: if_splits)
  have fresh: "next_rowid (seq_users d) (map u_id (users d)) \<notin> set (map u_id (users d))"
    by (rule next_rowid_fresh)
  from assms(1) have i: "distinct (map u_id (users d))" "distinct (map p_id (projects d))"
    "set (map p_author_id (projects d)) \<subseteq> set (map u_id (users d))"
    "set (map f_project_id (project_files d)) \<subseteq> set (map p_id (projects d))"
    "distinct (map f_project_id (project_files d))"
    by (simp_all only: db_inv_iff)
  have "distinct (map u_id (users d'))" using i(1) fresh by (simp add: d')
  moreover have "set (map p_author_id (projects d')) \<subseteq> set (map u_id (users d'))"
    using i(3) by (auto simp: d')
  moreover have "projects d' = projects d" "project_files d' = project_files d"
    by (simp_all add: d')
  ultimately show ?thesis using i(2,4,5) by (simp only: db_inv_iff)
qed

lemma register_state:
  "snd (register l d now n e pw) = d
   \<or> (\<exists>n' e' h. insert_user now n' e' h d = Inr (snd (register l d now n e pw)))"
  by (auto simp: register_def split: option.split sum.split)

lemma db_inv_register:
  assumes "db_inv d"
  shows "db_inv (snd (register l d now n e pw))"
  using register_state[of l d now n e pw] assms db_inv_insert_user[OF assms] by auto

lemma set_project_keys:
  "p_id (set_project i t ds b p) = p_id p"
  "p_author_id (set_project i t ds b p) = p_author_id p"
  by (simp_all add: set_project_def)

lemma project_update_state:
  "snd (project_update d uid pid b) = d
   \<or> (\<exists>t ds. snd (project_update d uid pid b) =
         d\<lparr>projects := map (set_project pid t ds b) (projects d)\<rparr>)"
  by (auto simp: project_update_def update_project_def split: option.split sum.split)

lemma db_inv_project_update:
  assumes "db_inv d"
  shows "db_inv (snd (project_update d uid pid b))"
proof -
  have "db_inv (d\<lparr>projects := map (set_project pid t ds b) (projects d)\<rparr>) = db_inv d"
    for t ds
    by (rule db_inv_same_keys) (simp_all add: set_project_keys)
  with assms project_update_state[of d uid pid b] show ?thesis by auto
qed

lemma set_user_keys: "u_id (set_user i n fn bi pic u) = u_id u"
  by (simp add: set_user_def)

lemma users_me_update_state:
  "snd (users_me_update d uid n fn bi upload) = d
   \<or> (\<exists>n' fn' bi' pic. snd (users_me_update d uid n fn bi upload) =
         d\<lparr>users := map (set_user uid n' fn' bi' pic) (users d)\<rparr>)"
  by (auto simp: users_me_update_def update_user_def split: option.split sum.split)

lemma db_inv_users_me_update:
  assumes "db_inv d"
  shows "db_inv (snd (users_me_update d uid n fn bi upload))"
proof -
  have "db_inv (d\<lparr>users := map (set_user uid n' fn' bi' pic) (users d)\<rparr>) = db_inv d"
    for n' fn' bi' pic
    by (rule db_inv_same_keys) (simp_all add: set_user_keys)
  with assms users_me_update_state[of d uid n fn bi upload] show ?thesis by auto
qed

lemma db_inv_delete_files:
  "db_inv d \<Longrightarrow> db_inv (delete_files_of pid (delete_reviews_of pid d))"
  by (auto simp: db_inv_iff delete_files_of_def delete_reviews_of_def distinct_map_filter)

lemma db_inv_delete_all:
  assumes "db_inv d"
  shows "db_inv (d\<lparr>reviews := filter (\<lambda>r. r_project_id r \<noteq> pid) (reviews d),
            project_files := filter (\<lambda>f. f_project_id f \<noteq> pid) (project_files d),
            projects := filter (\<lambda>p. p_id p \<noteq> pid) (projects d)\<rparr>)"
  using assms
  by (fastforce simp: db_inv_def list_all_iff list_ex_iff distinct_map_filter)

lemma db_inv_project_delete:
  assumes "db_inv d"
  shows "db_inv (snd (project_delete d uid pid))"
proof (cases "project_by_id d pid")
  case None
  with assms show ?thesis by (simp add: project_delete_def)
next
  case (Some p)
  show ?thesis
  proof (cases "p_author_id p = uid")
    case True
    from project_delete_author[OF Some True] db_inv_delete_all[OF assms, of pid]
    show ?thesis by simp
  next
    case False
    with Some assms show ?thesis by (simp add: project_delete_def)
  qed
qed

lemma db_inv_insert_project:
  assumes "db_inv d" and "insert_project now uid t ds b d = Inr d1"
  shows "db_inv d1" and "project_by_id d1 (seq_projects d1) \<noteq> None"
    and "seq_projects d1 \<notin> set (map f_project_id (project_files d1))"
    and "project_files d1 = project_files d"
proof -
  let ?i = "next_rowid (seq_projects d) (map p_id (projects d))"
  from assms(2) have u: "user_by_id d uid \<noteq> None" and
    d1: "d1 = d\<lparr>projects := projects d @
               [\<lparr>p_id = ?i, p_title = t, p_description = ds, p_author_id = uid,
                 p_section = or_null (b_section b),
                 p_group_number = or_null (b_group_number b),
                 p_full_name = or_null (b_full_name b),
                 p_matricule = or_null (b_matricule b), p_created_at = now\<rparr>],
             seq_projects := ?i\<rparr>"
    by (auto simp: insert_project_def Let_def split: if_splits)
  have fresh: "?i \<notin> set (map p_id (projects d))" by (rule next_rowid_fresh)
  from u have ex: "uid \<in> set (map u_id (users d))"
    by (auto simp: user_by_id_def find_None_iff)
  show "db_inv d1"
    using assms(1) fresh ex by (auto simp: d1 db_inv_iff)
  have "list_ex (\<lambda>p. p_id p = seq_projects d1) (projects d1)" by (simp add: d1)
  then show "project_by_id d1 (seq_projects d1) \<noteq> None"
    by (simp only: project_by_id_def find_not_None)
  show "seq_projects d1 \<notin> set (map f_project_id (project_files d1))"
    using assms(1) fresh by (auto simp: d1 db_inv_iff)
  show "project_files d1 = project_files d" by (simp add: d1)
qed

lemma db_inv_insert_file:
  assumes "db_inv d" and "insert_file now pid path d = Inr d2"
    and "pid \<notin> set (map f_project_id (project_files d))"
  shows "db_inv d2"
proof -
  from assms(2) have p: "project_by_id d pid \<noteq> None" and
    d2: "d2 = d\<lparr>project_files := project_files d @
               [\<lparr>f_id = next_rowid (seq_files d) (map f_id (project_files d)),
                 f_project_id = pid, f_file_path = path, f_uploaded_at = now\<rparr>],
             seq_files := next_rowid (seq_files d) (map f_id (project_files d))\<rparr>"
    by (auto simp: insert_file_def Let_def split: if_splits)
  from p have "pid \<in> set (map p_id (projects d))"
    by (auto simp: project_by_id_def find_None_iff)
  with assms(1,3) show ?thesis by (auto simp: d2 db_inv_iff)
qed

lemma project_create_state:
  "snd (project_create d now later uid b upload) = d
   \<or> (\<exists>t ds d1. insert_project now uid t ds b d = Inr d1
        \<and> (snd (project_create d now later uid b upload) = d1
           \<or> (\<exists>name. insert_file later (seq_projects d1) (''/uploads/'' @ name) d1 =
                 Inr (snd (project_create d now later uid b upload)))))"
  by (auto simp: project_create_def split: option.split sum.split)

lemma db_inv_project_create:
  assumes "db_inv d"
  shows "db_inv (snd (project_create d now later uid b upload))"
proof -
  let ?d' = "snd (project_create d now later uid b upload)"
  from project_create_state[of d now later uid b upload]
  consider "?d' = d"
    | t ds d1 where "insert_project now uid t ds b d = Inr d1" "?d' = d1"
    | t ds d1 name where "insert_project now uid t ds b d = Inr d1"
        "insert_file later (seq_projects d1) (''/uploads/'' @ name) d1 = Inr ?d'"
    by blast
  then show ?thesis
  proof cases
    case 1
    with assms show ?thesis by simp
  next
    case 2
    with db_inv_insert_project(1)[OF assms 2(1)] show ?thesis by simp
  next
    case 3
    note f = db_inv_insert_project[OF assms 3(1)]
    from db_inv_insert_file[OF f(1) 3(2) f(3)] show ?thesis .
  qed
qed

lemma db_inv_apply_request: "db_inv d \<Longrightarrow> db_inv (apply_request l d r)"
  by (cases r)
    (simp_all add: db_inv_register db_inv_project_create db_inv_project_update
      db_inv_project_delete db_inv_review_upsert db_inv_users_me_update)

lemma db_inv_run: "db_inv d \<Longrightarrow> db_inv (run l d rs)"
  unfolding run_def
  by (induction rs arbitrary: d) (simp_all add: db_inv_apply_request)

lemma db_inv_reached: "db_inv (run l empty_db rs)"
  by (rule db_inv_run) (rule db_inv_empty)

section \<open>Login: the two failures\<close>




text \<open>
  The lookup where one user's username is another user's email, the state that the two
  registrations \<open>clash_requests\<close> leave: the identifier \<open>bob@usthb.dz\<close> finds user 2,
  whose email it is, not user 1, whose username it is. With the password of user 2 the
  login succeeds; with that of user 1 it fails with the same 401 as for an unknown
  identifier.
\<close>

lemma login_email_match_first:
  "user_by_email_or_username db_clash ''bob@usthb.dz'' ''bob@usthb.dz'' =
     Some \<lparr>u_id = 2, u_username = ''bob'', u_email = ''bob@usthb.dz'',
          u_password = ''hash-password2'', u_full_name = None, u_profile_picture = None,
          u_bio = None, u_created_at = 20\<rparr>"
  "login sample_lib db_clash (Some ''bob@usthb.dz'') (Some ''password2'') =
     (200, AuthBody ''Login successful'' ''token-bob'' 2 ''bob'' ''bob@usthb.dz'')"
  "login sample_lib db_clash (Some ''bob@usthb.dz'') (Some ''password1'') =
     (401, ErrorBody ''Invalid email/username or password'')"
  "login sample_lib db_clash (Some ''nobody'') (Some ''password1'') =
     (401, ErrorBody ''Invalid email/username or password'')"
  by (simp_all add: login_def user_by_email_or_username_def db_clash_def sample_lib_def)

text \<open>
  A throw of the comparison is answered with 500 by the handler's \<^verbatim>\<open>catch\<close>. It comes
  after the lookup, so it is the answer for an identifier that finds a user only; an
  identifier that finds none is answered with 401 before any comparison.
\<close>

lemma login_compare_throws:
  assumes "e \<noteq> []" and "pw \<noteq> []" and "user_by_email_or_username d e e = Some u"
    and "bcrypt_compare l pw (u_password u) = None"
  shows "login l d (Some e) (Some pw) = (500, ErrorBody ''Login failed. Please try again.'')"
  using assms by (simp add: login_def)

lemma login_unknown_identifier:
  assumes "e \<noteq> []" and "pw \<noteq> []" and "user_by_email_or_username d e e = None"
  shows "login l d (Some e) (Some pw) = (401, ErrorBody ''Invalid email/username or password'')"
  using assms by (simp add: login_def)

section \<open>The aggregates and the attachment of the list and get queries\<close>

lemma map_filter_left_join: "List.map_filter (\<lambda>x. x) (left_join xs) = xs"
  by (induction xs) (simp_all add: left_join_def List.map_filter_simps List.map_filter_def o_def)

lemma map_filter_append: "List.map_filter h (xs @ ys) = List.map_filter h xs @ List.map_filter h ys"
  by (simp add: List.map_filter_def)

lemma map_filter_joined:
  "List.map_filter (\<lambda>j. snd (snd (snd j))) (map (\<lambda>r. (p, u, f, r)) rs) =
   List.map_filter (\<lambda>x. x) rs"
  by (induction rs) (simp_all add: List.map_filter_simps split: option.split)

lemma group_reviews_product:
  "group_reviews (concat (map (\<lambda>f. map (\<lambda>r. (p, u, f, r)) rs) fs)) =
   concat (map (\<lambda>f. List.map_filter (\<lambda>x. x) rs) fs)"
proof (induction fs)
  case Nil
  show ?case by (simp add: group_reviews_def List.map_filter_simps)
next
  case (Cons f fs)
  then show ?case
    by (simp add: group_reviews_def map_filter_append map_filter_joined)
qed

lemma sum_list_repeat:
  "sum_list (map h (concat (map (\<lambda>f. xs) fs))) = of_nat (length fs) * sum_list (map h xs)"
  for h :: "'a \<Rightarrow> rat"
  by (induction fs) (simp_all add: algebra_simps)

lemma length_repeat: "length (concat (map (\<lambda>f. xs) fs)) = length fs * length xs"
  by (induction fs) simp_all

lemma length_left_join: "length (left_join xs) = max 1 (length xs)"
  by (cases xs) (simp_all add: left_join_def)

lemma joined_rows_single_author:
  assumes "filter (\<lambda>u. u_id u = p_author_id p) (users d) = [u]"
  shows "group_reviews (joined_rows d p) =
     concat (map (\<lambda>f. reviews_of d (p_id p)) (left_join (files_of d (p_id p))))"
  using assms by (simp add: joined_rows_def group_reviews_product map_filter_left_join)

text \<open>
  What the aggregates are in general, for a project whose author row exists once: the
  average is the mean of the ratings of the project's review rows, 0 when it has none;
  the count is the number of its review rows times the number of its attachment rows,
  or times 1 when it has no attachment.
\<close>

lemma group_row_aggregates:
  assumes "filter (\<lambda>u. u_id u = p_author_id p) (users d) = [u]"
  shows "v_avg_rating (group_row pick (joined_rows d p)) =
           (if reviews_of d (p_id p) = [] then 0
            else sum_list (map r_rating (reviews_of d (p_id p)))
                 / of_nat (length (reviews_of d (p_id p))))
       \<and> v_review_count (group_row pick (joined_rows d p)) =
           max 1 (length (files_of d (p_id p))) * length (reviews_of d (p_id p))"
proof -
  let ?rs = "reviews_of d (p_id p)"
  let ?fs = "left_join (files_of d (p_id p))"
  have n: "length ?fs = max 1 (length (files_of d (p_id p)))" by (rule length_left_join)
  then have pos: "0 < length ?fs" by simp
  have g: "group_reviews (joined_rows d p) = concat (map (\<lambda>f. ?rs) ?fs)"
    using assms by (rule joined_rows_single_author)
  have cnt: "length (group_reviews (joined_rows d p)) = length ?fs * length ?rs"
    by (simp add: g length_repeat)
  have sm: "sum_list (map r_rating (group_reviews (joined_rows d p))) =
      of_nat (length ?fs) * sum_list (map r_rating ?rs)"
    by (simp only: g sum_list_repeat)
  have empty: "group_reviews (joined_rows d p) = [] \<longleftrightarrow> ?rs = []"
    using cnt pos by (metis length_0_conv mult_is_0 less_numeral_extra(3))
  have avg: "v_avg_rating (group_row pick (joined_rows d p)) =
      (if ?rs = [] then 0 else sum_list (map r_rating ?rs) / of_nat (length ?rs))"
  proof (cases "?rs = []")
    case True
    with empty show ?thesis by (simp add: group_row_def Let_def sql_avg_def coalesce_def)
  next
    case False
    with empty have ne: "group_reviews (joined_rows d p) \<noteq> []" by simp
    have "v_avg_rating (group_row pick (joined_rows d p)) =
        sum_list (map r_rating (group_reviews (joined_rows d p)))
        / of_nat (length (group_reviews (joined_rows d p)))"
      using ne by (simp add: group_row_def Let_def sql_avg_def coalesce_def)
    also have "\<dots> = (of_nat (length ?fs) * sum_list (map r_rating ?rs))
        / (of_nat (length ?fs) * of_nat (length ?rs))"
      by (simp only: sm cnt of_nat_mult)
    also have "\<dots> = sum_list (map r_rating ?rs) / of_nat (length ?rs)"
      using pos by simp
    finally show ?thesis using False by simp
  qed
  have "v_review_count (group_row pick (joined_rows d p)) =
      max 1 (length (files_of d (p_id p))) * length ?rs"
    by (simp add: group_row_def Let_def cnt n)
  with avg show ?thesis by simp
qed


lemma picks_row_first_row: "picks_row first_row"
  by (simp add: picks_row_def first_row_def)

lemma left_join_not_Nil: "left_join xs \<noteq> []"
  by (simp add: left_join_def)

lemma in_joined_rows:
  "j \<in> set (joined_rows d p) \<longleftrightarrow>
     fst j = p \<and> fst (snd j) \<in> set (filter (\<lambda>u. u_id u = p_author_id p) (users d))
     \<and> fst (snd (snd j)) \<in> set (left_join (files_of d (p_id p)))
     \<and> snd (snd (snd j)) \<in> set (left_join (reviews_of d (p_id p)))"
  by (cases j) (auto simp: joined_rows_def)

lemma joined_rows_not_Nil:
  assumes "list_ex (\<lambda>u. u_id u = p_author_id p) (users d)"
  shows "joined_rows d p \<noteq> []"
proof -
  from assms obtain u where u: "u \<in> set (users d)" "u_id u = p_author_id p"
    by (auto simp: list_ex_iff)
  obtain f where f: "f \<in> set (left_join (files_of d (p_id p)))"
    using left_join_not_Nil[of "files_of d (p_id p)"] by (cases "left_join (files_of d (p_id p))") auto
  obtain r where r: "r \<in> set (left_join (reviews_of d (p_id p)))"
    using left_join_not_Nil[of "reviews_of d (p_id p)"] by (cases "left_join (reviews_of d (p_id p))") auto
  from u f r have "(p, u, f, r) \<in> set (joined_rows d p)"
    by (simp add: in_joined_rows)
  then show ?thesis by auto
qed

lemma group_row_id:
  assumes "picks_row pick" and "joined_rows d p \<noteq> []"
  shows "v_id (group_row pick (joined_rows d p)) = p_id p"
proof -
  from assms have "pick (joined_rows d p) \<in> set (joined_rows d p)"
    by (simp add: picks_row_def)
  then have "fst (pick (joined_rows d p)) = p" by (simp add: in_joined_rows)
  then show ?thesis by (simp add: group_row_def Let_def)
qed


lemma filter_select_projects:
  assumes "picks_row pick"
  shows "filter (\<lambda>v. v_id v = i) (select_projects pick d ps) =
         select_projects pick d (filter (\<lambda>p. p_id p = i) ps)"
proof (induction ps)
  case Nil
  show ?case by (simp add: select_projects_def List.map_filter_simps)
next
  case (Cons p ps)
  then show ?case
    using group_row_id[OF assms, of d p]
    by (simp add: select_projects_def List.map_filter_simps)
qed

lemma distinct_filter_key:
  "distinct (map k xs) \<Longrightarrow> x \<in> set xs \<Longrightarrow> filter (\<lambda>y. k y = k x) xs = [x]"
proof (induction xs)
  case Nil
  then show ?case by simp
next
  case (Cons a xs)
  show ?case
  proof (cases "a = x")
    case True
    with Cons.prems have "k x \<notin> k ` set xs" by simp
    then have "\<forall>y \<in> set xs. k y \<noteq> k x" by (metis imageI)
    then have "filter (\<lambda>y. k y = k x) xs = []"
      by (simp add: filter_empty_conv)
    with True show ?thesis by simp
  next
    case False
    with Cons.prems have "x \<in> set xs" "k a \<noteq> k x" by auto
    with Cons show ?thesis by simp
  qed
qed

lemma select_projects_single:
  "joined_rows d p \<noteq> [] \<Longrightarrow>
   select_projects pick d [p] = [group_row pick (joined_rows d p)]"
  by (simp add: select_projects_def List.map_filter_simps)

lemma project_get_row:
  assumes "distinct (map p_id (projects d))" and "p \<in> set (projects d)"
    and "joined_rows d p \<noteq> []"
  shows "project_get pick d (p_id p) = (200, ProjectBody (group_row pick (joined_rows d p)))"
  using assms
  by (simp add: project_get_def distinct_filter_key[of p_id] select_projects_single)

lemma projects_list_row:
  assumes "picks_row pick" and "distinct (map p_id (projects d))" and "p \<in> set (projects d)"
    and "joined_rows d p \<noteq> []"
  shows "\<exists>vs. projects_list pick d sec grp = (200, ProjectsBody vs)
          \<and> filter (\<lambda>v. v_id v = p_id p) vs =
              (if matches_filter sec grp p then [group_row pick (joined_rows d p)] else [])"
proof -
  let ?ps = "rev (sort_key p_created_at (rev (filter (matches_filter sec grp) (projects d))))"
  have "filter (\<lambda>q. p_id q = p_id p) ?ps =
      rev (sort_key p_created_at (rev
        (filter (matches_filter sec grp) (filter (\<lambda>q. p_id q = p_id p) (projects d)))))"
    by (simp add: rev_filter[symmetric] filter_sort conj_commute)
  also have "\<dots> = (if matches_filter sec grp p then [p] else [])"
    using assms(2,3) by (simp add: distinct_filter_key[of p_id])
  finally have f: "filter (\<lambda>q. p_id q = p_id p) ?ps =
      (if matches_filter sec grp p then [p] else [])" .
  have "filter (\<lambda>v. v_id v = p_id p) (select_projects pick d ?ps) =
      (if matches_filter sec grp p then [group_row pick (joined_rows d p)] else [])"
    using assms(4)
    by (simp add: filter_select_projects[OF assms(1)] f select_projects_single)
      (simp add: select_projects_def List.map_filter_simps)
  then show ?thesis by (simp add: projects_list_def)
qed


lemma key_filter_single:
  assumes "distinct (map k xs)" and "list_ex (\<lambda>y. k y = a) xs"
  shows "\<exists>x. x \<in> set xs \<and> k x = a \<and> filter (\<lambda>y. k y = a) xs = [x]"
proof -
  from assms(2) obtain x where x: "x \<in> set xs" "k x = a" by (auto simp: list_ex_iff)
  from distinct_filter_key[OF assms(1) x(1)] x show ?thesis by auto
qed

lemma key_filter_at_most_one:
  assumes "distinct (map k xs)"
  shows "length (filter (\<lambda>y. k y = a) xs) \<le> 1"
proof (cases "list_ex (\<lambda>y. k y = a) xs")
  case True
  from key_filter_single[OF assms True] show ?thesis by auto
next
  case False
  then have "filter (\<lambda>y. k y = a) xs = []" by (auto simp: list_ex_iff filter_empty_conv)
  then show ?thesis by simp
qed

text \<open>
  In a state the service has reached, a project has one author row and at most one
  attachment row, and no other project has its id.
\<close>

lemma reached_project:
  assumes "p \<in> set (projects (run l empty_db rs))"
  shows "distinct (map p_id (projects (run l empty_db rs)))"
    and "\<exists>u. filter (\<lambda>u. u_id u = p_author_id p) (users (run l empty_db rs)) = [u]"
    and "length (files_of (run l empty_db rs) (p_id p)) \<le> 1"
    and "joined_rows (run l empty_db rs) p \<noteq> []"
proof -
  let ?d = "run l empty_db rs"
  have inv: "db_inv ?d" by (rule db_inv_reached)
  then show "distinct (map p_id (projects ?d))" by (simp add: db_inv_def)
  from inv assms have ex: "list_ex (\<lambda>u. u_id u = p_author_id p) (users ?d)"
    by (simp add: db_inv_def list_all_iff)
  from inv have "distinct (map u_id (users ?d))" by (simp add: db_inv_def)
  from key_filter_single[OF this ex]
  show "\<exists>u. filter (\<lambda>u. u_id u = p_author_id p) (users ?d) = [u]" by blast
  from inv have "distinct (map f_project_id (project_files ?d))" by (simp add: db_inv_def)
  from key_filter_at_most_one[OF this]
  show "length (files_of ?d (p_id p)) \<le> 1" by (simp add: files_of_def)
  from ex show "joined_rows ?d p \<noteq> []" by (rule joined_rows_not_Nil)
qed

text \<open>The sample runs end in the sample databases.\<close>

lemma email_sample:
  "emailRegex_test ''alice@usthb.dz''" "emailRegex_test ''bob@usthb.dz''"
  "emailRegex_test ''u1@usthb.dz''"
  by code_simp+

lemma run_two_users:
  "run sample_lib empty_db (take 2 sample_requests) =
     db0\<lparr>projects := [], seq_projects := 0\<rparr>"
  by (simp add: run_def sample_requests_def register_def email_sample
      user_by_email_or_username_def insert_user_def next_rowid_def empty_db_def
      sample_lib_def db0_def alice_def bob_def)

lemma run_append: "run l d (xs @ ys) = run l (run l d xs) ys"
  by (simp add: run_def)

lemma run_project:
  "run sample_lib empty_db (take 3 sample_requests) =
     db0\<lparr>project_files := [old_file], seq_files := 1\<rparr>"
proof -
  have "take 3 sample_requests = take 2 sample_requests @
      [CreateProject 30 40 1 thermostat_fields (Some ''project-1.pdf'')]"
    by (simp add: sample_requests_def)
  then have "run sample_lib empty_db (take 3 sample_requests) =
      apply_request sample_lib (db0\<lparr>projects := [], seq_projects := 0\<rparr>)
        (CreateProject 30 40 1 thermostat_fields (Some ''project-1.pdf''))"
    by (simp only: run_append run_two_users) (simp add: run_def)
  also have "\<dots> = db0\<lparr>project_files := [old_file], seq_files := 1\<rparr>"
    by (simp add: project_create_def insert_project_def insert_file_def thermostat_fields_def
        user_by_id_def project_by_id_def next_rowid_def or_null_def
        db0_def alice_def bob_def thermostat_def old_file_def)
  finally show ?thesis .
qed

lemma run_sample: "run sample_lib empty_db sample_requests = db_reached"
proof -
  have "sample_requests = take 3 sample_requests @
      [SubmitReview 100 2 1 (Some 3) None, SubmitReview 110 1 1 (Some 5) None]"
    by (simp add: sample_requests_def)
  then have "run sample_lib empty_db sample_requests =
      run sample_lib (db0\<lparr>project_files := [old_file], seq_files := 1\<rparr>)
        [SubmitReview 100 2 1 (Some 3) None, SubmitReview 110 1 1 (Some 5) None]"
    using run_append[of sample_lib empty_db "take 3 sample_requests"
        "[SubmitReview 100 2 1 (Some 3) None, SubmitReview 110 1 1 (Some 5) None]"]
    by (simp only: run_project)
  also have "\<dots> = db_reached"
    by (simp add: run_def review_upsert_def insert_review_def project_by_id_def
        user_by_id_def review_by_pair_def review_of_def next_rowid_def or_null_def
        db_reached_def db0_def alice_def bob_def thermostat_def old_file_def)
  finally show ?thesis .
qed

lemma run_clash: "run sample_lib empty_db clash_requests = db_clash"
  by (simp add: run_def clash_requests_def register_def email_sample
      user_by_email_or_username_def insert_user_def next_rowid_def empty_db_def
      sample_lib_def db_clash_def)

text \<open>
  Claim C2. Take any state the service reaches from the empty tables and any project
  row \<open>p\<close> of it. Get answers 200 with a row whose \<^verbatim>\<open>avg_rating\<close> is the mean of the
  ratings of the project's review rows, 0 when it has none, and whose \<^verbatim>\<open>review_count\<close>
  is the number of those rows. List holds exactly one row for the project's id when the
  project passes the filters (none otherwise), with the same two values. With the
  ratings 3 and 5 the average is 4 and the count 2. The bare columns may come from any
  row of the group, in get and in list independently.
\<close>

theorem aggregates_of_reached_state:
  assumes "d = run l empty_db rs" and "p \<in> set (projects d)" and "picks_row pl"
  shows "\<exists>v. project_get pg d (p_id p) = (200, ProjectBody v)
      \<and> v_avg_rating v =
          (if reviews_of d (p_id p) = [] then 0
           else sum_list (map r_rating (reviews_of d (p_id p)))
                / of_nat (length (reviews_of d (p_id p))))
      \<and> v_review_count v = length (reviews_of d (p_id p))
      \<and> (\<exists>vs. projects_list pl d sec grp = (200, ProjectsBody vs)
            \<and> (if matches_filter sec grp p
               then \<exists>w. filter (\<lambda>x. v_id x = p_id p) vs = [w]
                      \<and> v_avg_rating w = v_avg_rating v
                      \<and> v_review_count w = v_review_count v
               else filter (\<lambda>x. v_id x = p_id p) vs = []))
      \<and> (map r_rating (reviews_of d (p_id p)) = [3, 5] \<longrightarrow>
            v_avg_rating v = 4 \<and> v_review_count v = 2)"
proof -
  from assms(2) have p: "p \<in> set (projects (run l empty_db rs))"
    by (simp add: assms(1))
  note r = reached_project[OF p, folded assms(1)]
  from r(2) obtain u where u: "filter (\<lambda>u. u_id u = p_author_id p) (users d) = [u]" ..
  let ?rs = "reviews_of d (p_id p)"
  have one: "max 1 (length (files_of d (p_id p))) = 1" using r(3) by simp
  have agg: "v_avg_rating (group_row pick (joined_rows d p)) =
        (if ?rs = [] then 0 else sum_list (map r_rating ?rs) / of_nat (length ?rs))"
      "v_review_count (group_row pick (joined_rows d p)) = length ?rs" for pick
    using group_row_aggregates[OF u, of pick] one by simp_all
  have g: "project_get pg d (p_id p) = (200, ProjectBody (group_row pg (joined_rows d p)))"
    using project_get_row[OF r(1) assms(2) r(4)] .
  from projects_list_row[OF assms(3) r(1) assms(2) r(4), of sec grp]
  obtain vs where vs: "projects_list pl d sec grp = (200, ProjectsBody vs)"
    "filter (\<lambda>v. v_id v = p_id p) vs =
       (if matches_filter sec grp p then [group_row pl (joined_rows d p)] else [])"
    by blast
  have l: "if matches_filter sec grp p
      then \<exists>w. filter (\<lambda>x. v_id x = p_id p) vs = [w]
             \<and> v_avg_rating w = v_avg_rating (group_row pg (joined_rows d p))
             \<and> v_review_count w = v_review_count (group_row pg (joined_rows d p))
      else filter (\<lambda>x. v_id x = p_id p) vs = []"
    using vs(2) by (simp add: agg)
  have ex: "v_avg_rating (group_row pg (joined_rows d p)) = 4
      \<and> v_review_count (group_row pg (joined_rows d p)) = 2"
    if "map r_rating ?rs = [3, 5]"
  proof -
    from that have "length (map r_rating ?rs) = 2" by simp
    then have len: "length ?rs = 2" by simp
    then have "?rs \<noteq> []" by auto
    with that len show ?thesis by (simp add: agg)
  qed
  show ?thesis
    apply (rule exI[of _ "group_row pg (joined_rows d p)"])
    apply (intro conjI)
        apply (rule g)
       apply (rule agg(1))
      apply (rule agg(2))
     apply (rule exI[of _ vs])
     apply (rule conjI[OF vs(1) l])
    using ex apply blast
    done
qed

lemma reviews_db_reached: "map r_rating (reviews_of db_reached 1) = [3, 5]"
  by (simp add: reviews_of_def db_reached_def)

theorem aggregates_of_reached_state_witness:
  "db_reached = run sample_lib empty_db sample_requests
   \<and> thermostat \<in> set (projects db_reached) \<and> p_id thermostat = 1
   \<and> picks_row first_row
   \<and> matches_filter None None thermostat
   \<and> map r_rating (reviews_of db_reached 1) = [3, 5]
   \<and> (\<exists>v. project_get first_row db_reached 1 = (200, ProjectBody v)
         \<and> v_avg_rating v = 4 \<and> v_review_count v = 2
         \<and> (\<exists>vs w. projects_list first_row db_reached None None = (200, ProjectsBody vs)
               \<and> filter (\<lambda>x. v_id x = 1) vs = [w]
               \<and> v_avg_rating w = 4 \<and> v_review_count w = 2))
   \<and> thermostat \<in> set (projects (run sample_lib empty_db (take 3 sample_requests)))
   \<and> reviews_of (run sample_lib empty_db (take 3 sample_requests)) 1 = []
   \<and> (\<exists>v. project_get first_row (run sample_lib empty_db (take 3 sample_requests)) 1 =
              (200, ProjectBody v)
         \<and> v_avg_rating v = 0 \<and> v_review_count v = 0)"
proof -
  have a: "db_reached = run sample_lib empty_db sample_requests" by (simp add: run_sample)
  have b: "thermostat \<in> set (projects db_reached)" "p_id thermostat = 1"
    by (simp_all add: db_reached_def db0_def thermostat_def)
  have m: "matches_filter None None thermostat" by (simp add: matches_filter_def)
  from aggregates_of_reached_state[OF a b(1) picks_row_first_row, of first_row None None]
  have c: "\<exists>v. project_get first_row db_reached 1 = (200, ProjectBody v)
         \<and> v_avg_rating v = 4 \<and> v_review_count v = 2
         \<and> (\<exists>vs w. projects_list first_row db_reached None None = (200, ProjectsBody vs)
               \<and> filter (\<lambda>x. v_id x = 1) vs = [w]
               \<and> v_avg_rating w = 4 \<and> v_review_count w = 2)"
    unfolding b(2) using m reviews_db_reached by (simp del: One_nat_def) metis
  let ?e = "run sample_lib empty_db (take 3 sample_requests)"
  have e: "thermostat \<in> set (projects ?e)" "reviews_of ?e 1 = []"
    by (simp_all add: run_project reviews_of_def db0_def)
  from aggregates_of_reached_state[OF refl e(1) picks_row_first_row, of first_row None None]
  have f: "\<exists>v. project_get first_row ?e 1 = (200, ProjectBody v)
         \<and> v_avg_rating v = 0 \<and> v_review_count v = 0"
    unfolding b(2) using e(2) by (simp del: One_nat_def) metis
  from a b m picks_row_first_row reviews_db_reached c e f show ?thesis by blast
qed




text \<open>
  Outside the reached states the query does not fix the row: on the database made by
  hand with two attachment rows of project 1, get surfaces the path of the row uploaded
  first when the bare columns come from the first row of the group.
\<close>

lemma joined_db3: "joined_rows db3 thermostat =
  [(thermostat, alice, Some old_file, None), (thermostat, alice, Some new_file, None)]"
  by (simp add: joined_rows_def db3_def db0_def left_join_def files_of_def reviews_of_def
      alice_def bob_def thermostat_def old_file_def new_file_def)

lemma project_get_two_attachments:
  "files_of db3 1 = [old_file, new_file]
   \<and> f_uploaded_at old_file < f_uploaded_at new_file
   \<and> project_get first_row db3 1 =
       (200, ProjectBody (thermostat_view (Some (f_file_path old_file)) 0 0))"
proof -
  have g: "group_row first_row (joined_rows db3 thermostat) =
      thermostat_view (Some (f_file_path old_file)) 0 0"
    unfolding joined_db3
    by (simp add: group_row_def first_row_def group_reviews_def List.map_filter_simps
        sql_avg_def coalesce_def thermostat_view_def thermostat_def alice_def old_file_def)
  have ne: "joined_rows db3 thermostat \<noteq> []" unfolding joined_db3 by simp
  have ps: "projects db3 = [thermostat]" "p_id thermostat = 1"
    by (simp_all add: db3_def db0_def thermostat_def)
  have "project_get first_row db3 1 =
     (200, ProjectBody (thermostat_view (Some (f_file_path old_file)) 0 0))"
    by (simp add: project_get_def ps select_projects_def List.map_filter_simps ne g)
  moreover have "files_of db3 1 = [old_file, new_file]"
    by (simp add: files_of_def db3_def old_file_def new_file_def)
  moreover have "f_uploaded_at old_file < f_uploaded_at new_file"
    by (simp add: old_file_def new_file_def)
  ultimately show ?thesis by simp
qed

end
